theory Spec2Isabelle
  imports Complex_Main
begin

section \<open>Data model of investment.py\<close>

text \<open>
  Python ints are modelled as \<open>int\<close> and Python floats as reals. The definitions of the
  first sections compute with exact reals; the sections on binary64 arithmetic below repeat
  the functions that compute with floats with the rounding of every operation written
  out. Infinities and NaN are outside the model. Every exception the modelled code can
  raise is a value of \<open>error\<close>; a function that can raise returns \<open>error + 'a\<close>.
\<close>

datatype error =
    KeyError int        \<comment> \<open>a year missing from \<open>snp_yearly\<close> or \<open>year_to_inflation\<close>\<close>
  | AssertionError      \<comment> \<open>the \<open>assert\<close> of \<open>buy_stock\<close>\<close>
  | ZeroDivisionError   \<comment> \<open>a division by a zero price or a zero inflation factor\<close>

text \<open>\<open>class SnpYear\<close> (lines 88-92).\<close>

record SnpYear =
  snp_year :: int
  snp_open :: real
  snp_close :: real

text \<open>\<open>class Market\<close> (lines 104-137).\<close>

record Market =
  cur_year :: int
  at_start_of_year :: bool
  snp_yearly :: "int \<rightharpoonup> SnpYear"
  year_to_inflation :: "int \<rightharpoonup> real"

definition Market_init :: "(int \<rightharpoonup> SnpYear) \<Rightarrow> int \<Rightarrow> (int \<rightharpoonup> real) \<Rightarrow> Market" where
  "Market_init snp start_year infl =
     \<lparr>cur_year = start_year, at_start_of_year = True,
      snp_yearly = snp, year_to_inflation = infl\<rparr>"

definition move_to_next_year :: "Market \<Rightarrow> Market" where
  "move_to_next_year m = m\<lparr>cur_year := cur_year m + 1, at_start_of_year := True\<rparr>"

definition move_to_end_of_current_year :: "Market \<Rightarrow> Market" where
  "move_to_end_of_current_year m = m\<lparr>at_start_of_year := False\<rparr>"

definition current_inflation :: "Market \<Rightarrow> error + real" where
  "current_inflation m =
     (case year_to_inflation m (cur_year m) of
        None \<Rightarrow> Inl (KeyError (cur_year m))
      | Some r \<Rightarrow> Inr r)"

definition current_price :: "Market \<Rightarrow> error + real" where
  "current_price m =
     (case snp_yearly m (cur_year m) of
        None \<Rightarrow> Inl (KeyError (cur_year m))
      | Some y \<Rightarrow> Inr (if at_start_of_year m then snp_open y else snp_close y))"

text \<open>
  \<open>class InvestmentAccount\<close> (lines 140-184). The account holds a reference to the
  market; \<open>run_strategy\<close> hands the same \<open>Market\<close> object to the account and to the
  strategy, so the market lives inside the account record and every clock movement is
  an update of that field.
\<close>

record InvestmentAccount =
  cash :: real
  market :: Market
  num_shares :: int

definition InvestmentAccount_init :: "real \<Rightarrow> Market \<Rightarrow> InvestmentAccount" where
  "InvestmentAccount_init starting_cash m =
     \<lparr>cash = starting_cash, market = m, num_shares = 0\<rparr>"

definition net_worth :: "InvestmentAccount \<Rightarrow> error + real" where
  "net_worth a =
     (case current_price (market a) of
        Inl e \<Rightarrow> Inl e
      | Inr p \<Rightarrow> Inr (cash a + of_int (num_shares a) * p))"

text \<open>
  \<open>buy_stock\<close> (lines 152-156). The f-string of the \<open>logger.debug\<close> call reads the
  current price before anything else, so a missing year raises first.
\<close>

definition buy_stock :: "InvestmentAccount \<Rightarrow> int \<Rightarrow> error + InvestmentAccount" where
  "buy_stock a n =
     (case current_price (market a) of
        Inl e \<Rightarrow> Inl e
      | Inr p \<Rightarrow>
          if \<not> (cash a \<ge> p * of_int n) then Inl AssertionError
          else Inr (a\<lparr>cash := cash a - p * of_int n, num_shares := num_shares a + n\<rparr>))"

text \<open>
  \<open>sell_stock\<close> (lines 158-165). The debug f-string reads the current price and the net
  worth first; then the share test, then the two updates.
\<close>

definition sell_stock :: "InvestmentAccount \<Rightarrow> int \<Rightarrow> error + (bool \<times> InvestmentAccount)" where
  "sell_stock a n =
     (case current_price (market a) of
        Inl e \<Rightarrow> Inl e
      | Inr p \<Rightarrow>
          if num_shares a < n then Inr (False, a)
          else Inr (True, a\<lparr>cash := cash a + p * of_int n, num_shares := num_shares a - n\<rparr>))"

text \<open>\<open>spend_cash\<close> (lines 167-171).\<close>

definition spend_cash :: "InvestmentAccount \<Rightarrow> real \<Rightarrow> bool \<times> InvestmentAccount" where
  "spend_cash a amount =
     (if cash a < amount then (False, a)
      else (True, a\<lparr>cash := cash a - amount\<rparr>))"

section \<open>Text produced by the strategy\<close>

text \<open>
  The f-string \<open>f'{year}'\<close> prints an int in decimal, with a leading minus sign for a
  negative one.
\<close>

definition digit_char :: "nat \<Rightarrow> char" where
  "digit_char d = ''0123456789'' ! d"

function str_nat :: "nat \<Rightarrow> string" where
  "str_nat n = (if n < 10 then [digit_char n] else str_nat (n div 10) @ [digit_char (n mod 10)])"
  by pat_completeness auto
termination
  by (relation "measure id") auto

declare str_nat.simps [simp del]

definition str_int :: "int \<Rightarrow> string" where
  "str_int i = (if i < 0 then CHR ''-'' # str_nat (nat (- i)) else str_nat (nat i))"

text \<open>
  \<open>colored(text, colour)\<close> belongs to the termcolor library and is not part of the
  repository: \<open>Colored text colour\<close> stands for its result, \<open>Plain text\<close> for a string
  that was not passed through it.
\<close>

datatype msg = Plain string | Colored string string

section \<open>BuyAndHoldStrategy.go\<close>

text \<open>The two module globals set by \<open>cli\<close> (lines 43-47), and \<open>STARTING_CASH\<close> (line 29).\<close>

record config =
  SPENDING_PERCENTAGE :: real
  SPEND_FIXED_REAL_AMOUNT :: bool

definition STARTING_CASH :: real where
  "STARTING_CASH = 1000000"

text \<open>
  One row of \<open>debug_info\<close> (lines 284-301), in column order. The source formats the
  numbers with \<open>dollarstr\<close>, \<open>dollarstr_decimal\<close> and \<open>percentstr\<close>; the model keeps
  the numbers.
\<close>

record debug_row =
  row_year :: int
  row_start_shares :: int
  row_start_net_worth :: real
  row_withdrawal :: real
  row_shares_sold :: int
  row_unspent_cash :: real
  row_start_share_price :: real
  row_end_share_price :: real
  row_inflation :: real
  row_end_shares :: int
  row_end_net_worth :: real

text \<open>
  The variables the loop of \<open>go\<close> reads and writes: \<open>ret\<close>, \<open>fixed_real_withdrawal\<close>,
  the account (mutated in place by the source) and the rows appended to \<open>debug_info\<close>
  after its header row.
\<close>

record go_state =
  ret :: "bool \<times> msg"
  fixed_real_withdrawal :: real
  account :: InvestmentAccount
  debug_info :: "debug_row list"

datatype control = Break | Next

text \<open>Line 269: \<open>math.ceil((this_year_withdrawal - account.cash_available) / market.current_price)\<close>.\<close>

definition num_shares_to_sell :: "InvestmentAccount \<Rightarrow> real \<Rightarrow> error + int" where
  "num_shares_to_sell a w =
     (case current_price (market a) of
        Inl e \<Rightarrow> Inl e
      | Inr p \<Rightarrow>
          if p = 0 then Inl ZeroDivisionError
          else Inr \<lceil>(w - cash a) / p\<rceil>)"

text \<open>Lines 261-266. The source reads \<open>account.net_worth\<close> also in fixed mode.\<close>

definition this_year_withdrawal :: "config \<Rightarrow> go_state \<Rightarrow> error + real" where
  "this_year_withdrawal cfg s =
     (case net_worth (account s) of
        Inl e \<Rightarrow> Inl e
      | Inr nw \<Rightarrow>
          Inr (if SPEND_FIXED_REAL_AMOUNT cfg then fixed_real_withdrawal s
               else nw * SPENDING_PERCENTAGE cfg))"

text \<open>The body of the \<open>for year in range(...)\<close> loop (lines 258-308).\<close>

definition year_step :: "config \<Rightarrow> int \<Rightarrow> go_state \<Rightarrow> error + (control \<times> go_state)" where
  "year_step cfg yr s =
     (let start_shares = num_shares (account s) in
      case net_worth (account s) of
        Inl e \<Rightarrow> Inl e
      | Inr start_net_worth \<Rightarrow>
      case this_year_withdrawal cfg s of
        Inl e \<Rightarrow> Inl e
      | Inr w \<Rightarrow>
      case num_shares_to_sell (account s) w of
        Inl e \<Rightarrow> Inl e
      | Inr n \<Rightarrow>
      case sell_stock (account s) n of
        Inl e \<Rightarrow> Inl e
      | Inr (sold, a1) \<Rightarrow>
          if \<not> sold then
            Inr (Break, s\<lparr>ret := (False, Colored (''ran short in '' @ str_int yr) ''red''),
                          account := a1\<rparr>)
          else
      case spend_cash a1 w of (spent, a2) \<Rightarrow>
          if \<not> spent then
            Inr (Break, s\<lparr>ret := (False, Colored ''failed to spend cash?'' ''yellow''),
                          account := a2\<rparr>)
          else
      case current_price (market a2) of
        Inl e \<Rightarrow> Inl e
      | Inr start_share_price \<Rightarrow>
      let a3 = a2\<lparr>market := move_to_end_of_current_year (market a2)\<rparr> in
      case current_price (market a3) of
        Inl e \<Rightarrow> Inl e
      | Inr end_share_price \<Rightarrow>
      case current_inflation (market a3) of
        Inl e \<Rightarrow> Inl e
      | Inr infl \<Rightarrow>
      case net_worth a3 of
        Inl e \<Rightarrow> Inl e
      | Inr end_net_worth \<Rightarrow>
          Inr (Next,
               s\<lparr>fixed_real_withdrawal := fixed_real_withdrawal s * (1 + infl),
                 account := a3\<lparr>market := move_to_next_year (market a3)\<rparr>,
                 debug_info := debug_info s @
                   [\<lparr>row_year = yr,
                     row_start_shares = start_shares,
                     row_start_net_worth = start_net_worth,
                     row_withdrawal = w,
                     row_shares_sold = n,
                     row_unspent_cash = cash a3,
                     row_start_share_price = start_share_price,
                     row_end_share_price = end_share_price,
                     row_inflation = infl,
                     row_end_shares = num_shares a3,
                     row_end_net_worth = end_net_worth\<rparr>]\<rparr>))"

text \<open>The loop itself: \<open>break\<close> leaves it, an exception aborts it.\<close>

fun go_loop :: "config \<Rightarrow> int list \<Rightarrow> go_state \<Rightarrow> error + go_state" where
  "go_loop cfg [] s = Inr s"
| "go_loop cfg (yr # yrs) s =
     (case year_step cfg yr s of
        Inl e \<Rightarrow> Inl e
      | Inr (Break, s') \<Rightarrow> Inr s'
      | Inr (Next, s') \<Rightarrow> go_loop cfg yrs s')"

text \<open>
  \<open>go\<close> (lines 230-315) returns \<open>ret\<close>; the model returns with it the account as the
  run left it and the rows of \<open>debug_info\<close>. \<open>range(start_year, start_year + num_years)\<close>
  is the list \<open>[start_year..start_year + num_years - 1]\<close>.
\<close>

definition go :: "config \<Rightarrow> InvestmentAccount \<Rightarrow> int \<Rightarrow> int
    \<Rightarrow> error + ((bool \<times> msg) \<times> InvestmentAccount \<times> debug_row list)" where
  "go cfg a start_year num_years =
     (let frw = cash a * SPENDING_PERCENTAGE cfg in
      case current_price (market a) of
        Inl e \<Rightarrow> Inl e
      | Inr p \<Rightarrow>
          if p = 0 then Inl ZeroDivisionError
          else
      case buy_stock a \<lfloor>cash a / p\<rfloor> of
        Inl e \<Rightarrow> Inl e
      | Inr a1 \<Rightarrow>
      case go_loop cfg [start_year..start_year + num_years - 1]
             \<lparr>ret = (True, Plain []), fixed_real_withdrawal = frw,
              account = a1, debug_info = []\<rparr> of
        Inl e \<Rightarrow> Inl e
      | Inr s \<Rightarrow> Inr (ret s, account s, debug_info s))"

section \<open>Inflation\<close>

text \<open>\<open>get_inflation_percentage\<close> (lines 318-331): the loop, then the function.\<close>

fun inflation_loop :: "(int \<rightharpoonup> real) \<Rightarrow> int list \<Rightarrow> real \<Rightarrow> error + real" where
  "inflation_loop infl [] percent = Inr percent"
| "inflation_loop infl (yr # yrs) percent =
     (case infl yr of
        None \<Rightarrow> Inl (KeyError yr)
      | Some r \<Rightarrow> inflation_loop infl yrs (percent * (1 + r)))"

definition get_inflation_percentage :: "(int \<rightharpoonup> real) \<Rightarrow> int \<Rightarrow> int \<Rightarrow> error + real" where
  "get_inflation_percentage infl start_year num_years =
     inflation_loop infl [start_year..start_year + num_years - 1] 1"

text \<open>\<open>nominal_to_real\<close> (lines 334-348): \<open>start * (1. / get_inflation_percentage(...))\<close>.\<close>

definition nominal_to_real :: "(int \<rightharpoonup> real) \<Rightarrow> real \<Rightarrow> int \<Rightarrow> int \<Rightarrow> error + real" where
  "nominal_to_real infl start start_year num_years =
     (case get_inflation_percentage infl start_year num_years of
        Inl e \<Rightarrow> Inl e
      | Inr percent \<Rightarrow>
          if percent = 0 then Inl ZeroDivisionError
          else Inr (start * (1 / percent)))"

section \<open>run_strategy\<close>

text \<open>
  A cell of the \<open>display\<close> table. The source formats numbers into strings:
  \<open>Money0 x\<close> is \<open>f'${x:,.0f}'\<close>, \<open>Pct2 x\<close> is \<open>f'{x:.2f}%'\<close> and \<open>RedPct2 x\<close> is the
  same string passed through \<open>colored(..., 'red')\<close>.
\<close>

datatype cell = Str string | Status msg | Money0 real | Pct2 real | RedPct2 real

definition display_header :: "cell list" where
  "display_header =
     [Str ''Years'', Str ''End value (real)'', Str ''End value (nominal)'',
      Str ''Gain'', Str ''Inflation'']"

text \<open>
  The body of the loop over \<open>start_years\<close> (lines 370-401): the row it adds to
  \<open>display\<close>. \<open>strategy_go\<close> is the \<open>go\<close> of the strategy class handed in.
\<close>

definition run_start_year ::
  "(InvestmentAccount \<Rightarrow> int \<Rightarrow> int \<Rightarrow> error + ((bool \<times> msg) \<times> InvestmentAccount \<times> debug_row list))
    \<Rightarrow> (int \<rightharpoonup> SnpYear) \<Rightarrow> (int \<rightharpoonup> real) \<Rightarrow> int \<Rightarrow> int \<Rightarrow> error + cell list" where
  "run_start_year strategy_go snp infl num_years yr =
     (let m = Market_init snp yr infl;
          a = InvestmentAccount_init STARTING_CASH m;
          years_range = str_int yr @ '' - '' @ str_int (yr + num_years)
      in
      case strategy_go a yr num_years of
        Inl e \<Rightarrow> Inl e
      | Inr (status, a', rows) \<Rightarrow>
          if fst status then
            (case get_inflation_percentage infl yr num_years of
               Inl e \<Rightarrow> Inl e
             | Inr inflation \<Rightarrow>
             case net_worth a' of
               Inl e \<Rightarrow> Inl e
             | Inr nw \<Rightarrow>
             case nominal_to_real infl nw yr num_years of
               Inl e \<Rightarrow> Inl e
             | Inr net_worth_real \<Rightarrow>
                 let remainder_percent = (net_worth_real - STARTING_CASH) * 100 / STARTING_CASH;
                     gainloss = (if remainder_percent > 0 then Pct2 remainder_percent
                                 else RedPct2 remainder_percent)
                 in Inr [Str years_range, Money0 net_worth_real, Money0 nw, gainloss,
                         Pct2 (inflation * 100)])
          else
            Inr [Str years_range, Status (snd status), Str [], Str [], Str [], Str []])"

fun run_strategy_loop ::
  "(InvestmentAccount \<Rightarrow> int \<Rightarrow> int \<Rightarrow> error + ((bool \<times> msg) \<times> InvestmentAccount \<times> debug_row list))
    \<Rightarrow> (int \<rightharpoonup> SnpYear) \<Rightarrow> (int \<rightharpoonup> real) \<Rightarrow> int \<Rightarrow> int list \<Rightarrow> cell list list
    \<Rightarrow> error + cell list list" where
  "run_strategy_loop strategy_go snp infl num_years [] display = Inr display"
| "run_strategy_loop strategy_go snp infl num_years (yr # yrs) display =
     (case run_start_year strategy_go snp infl num_years yr of
        Inl e \<Rightarrow> Inl e
      | Inr row \<Rightarrow> run_strategy_loop strategy_go snp infl num_years yrs (display @ [row]))"

text \<open>\<open>run_strategy\<close> (lines 353-407) up to the table it logs and writes.\<close>

definition run_strategy ::
  "(InvestmentAccount \<Rightarrow> int \<Rightarrow> int \<Rightarrow> error + ((bool \<times> msg) \<times> InvestmentAccount \<times> debug_row list))
    \<Rightarrow> (int \<rightharpoonup> SnpYear) \<Rightarrow> (int \<rightharpoonup> real) \<Rightarrow> int list \<Rightarrow> int \<Rightarrow> error + cell list list" where
  "run_strategy strategy_go snp infl start_years num_years =
     run_strategy_loop strategy_go snp infl num_years start_years [display_header]"

section \<open>Properties of the data and example data\<close>

text \<open>Every recorded price is positive (the invariant of the yearly price records).\<close>

definition prices_positive :: "(int \<rightharpoonup> SnpYear) \<Rightarrow> bool" where
  "prices_positive snp = (\<forall>y s. snp y = Some s \<longrightarrow> 0 < snp_open s \<and> 0 < snp_close s)"

text \<open>The account invariant: no negative cash, no negative share count.\<close>

definition account_ok :: "InvestmentAccount \<Rightarrow> bool" where
  "account_ok a = (0 \<le> cash a \<and> 0 \<le> num_shares a)"

text \<open>A small price and inflation history, used to run the definitions on concrete input.\<close>

definition example_snp :: "int \<rightharpoonup> SnpYear" where
  "example_snp =
     [2000 \<mapsto> \<lparr>snp_year = 2000, snp_open = 100, snp_close = 110\<rparr>,
      2001 \<mapsto> \<lparr>snp_year = 2001, snp_open = 110, snp_close = 55\<rparr>,
      2002 \<mapsto> \<lparr>snp_year = 2002, snp_open = 50, snp_close = 60\<rparr>]"

definition example_inflation :: "int \<rightharpoonup> real" where
  "example_inflation = [2000 \<mapsto> 5 / 100, 2001 \<mapsto> 2 / 100, 2002 \<mapsto> 1 / 4]"

definition example_market :: Market where
  "example_market = Market_init example_snp 2000 example_inflation"

definition example_account :: InvestmentAccount where
  "example_account = \<lparr>cash = 1000, market = example_market, num_shares = 5\<rparr>"

definition example_config :: config where
  "example_config = \<lparr>SPENDING_PERCENTAGE = 4 / 100, SPEND_FIXED_REAL_AMOUNT = True\<rparr>"

definition example_start :: InvestmentAccount where
  "example_start = InvestmentAccount_init STARTING_CASH example_market"


definition example_config_60 :: config where
  "example_config_60 = \<lparr>SPENDING_PERCENTAGE = 60 / 100, SPEND_FIXED_REAL_AMOUNT = True\<rparr>"

text \<open>No inflation rate is below -100 percent: the factor \<open>1 + rate\<close> is never negative.\<close>

definition inflation_bounded :: "(int \<rightharpoonup> real) \<Rightarrow> bool" where
  "inflation_bounded infl = (\<forall>y r. infl y = Some r \<longrightarrow> - 1 \<le> r)"

section \<open>Binary64 arithmetic\<close>

text \<open>
  A Python float is an IEEE 754 binary64 number, and each arithmetic operation on floats
  returns the exact result rounded to the nearest binary64 number, ties to the even
  significand. The finite binary64 numbers are reals, so the layer below keeps \<open>real\<close>
  as the type of a float and makes the rounding explicit: \<open>binary64 x\<close> is the binary64
  number nearest to the real \<open>x\<close>. Overflow to infinity and NaN are left out: the function
  describes the rounding of results below \<open>2 ^ 1024\<close> in absolute value.
\<close>

text \<open>The number of binary digits of a natural number (\<open>int.bit_length\<close>).\<close>

function bit_length :: "nat \<Rightarrow> nat" where
  "bit_length n = (if n = 0 then 0 else 1 + bit_length (n div 2))"
  by pat_completeness auto
termination
  by (relation "measure id") auto

declare bit_length.simps [simp del]

text \<open>
  The binary exponent of a non-zero real: the \<open>e\<close> with \<open>2 ^ e \<le> \<bar>x\<bar> < 2 ^ (e + 1)\<close>.
\<close>

definition exponent :: "real \<Rightarrow> int" where
  "exponent x =
     (if 1 \<le> \<bar>x\<bar> then int (bit_length (nat \<lfloor>\<bar>x\<bar>\<rfloor>)) - 1
      else - int (bit_length (nat (\<lceil>1 / \<bar>x\<bar>\<rceil> - 1))))"

definition pow2 :: "int \<Rightarrow> real" where
  "pow2 e = (if 0 \<le> e then 2 ^ nat e else 1 / 2 ^ nat (- e))"

definition round_half_even :: "real \<Rightarrow> int" where
  "round_half_even x =
     (if frac x < 1 / 2 then \<lfloor>x\<rfloor>
      else if 1 / 2 < frac x then \<lfloor>x\<rfloor> + 1
      else if even \<lfloor>x\<rfloor> then \<lfloor>x\<rfloor> else \<lfloor>x\<rfloor> + 1)"

text \<open>
  The weight of the last binary digit of a binary64 number of the size of \<open>x\<close>: the
  significand has 53 digits, or fewer for a subnormal number, where the weight stays at
  \<open>2 ^ -1074\<close>.
\<close>

definition ulp :: "real \<Rightarrow> real" where
  "ulp x = pow2 (max (exponent x - 52) (- 1074))"

text \<open>The multiple of \<open>u\<close> nearest to \<open>x\<close>, ties to the even multiple.\<close>

definition quantize :: "real \<Rightarrow> real \<Rightarrow> real" where
  "quantize u x = of_int (round_half_even (x / u)) * u"

definition binary64 :: "real \<Rightarrow> real" where
  "binary64 x = (if x = 0 then 0 else quantize (ulp x) x)"

section \<open>The arithmetic of investment.py with rounding\<close>

text \<open>
  The functions of the source that compute with floats, with the rounding of every
  operation written out. The parameter \<open>r\<close> is the rounding function: \<open>binary64\<close> gives
  what the Python code computes, the identity gives the exact arithmetic of the
  definitions above. An int operand of a float operation is converted to a float first
  (\<open>r (of_int n)\<close>); \<open>math.floor\<close> and \<open>math.ceil\<close> return the exact int.
\<close>

text \<open>\<open>net_worth\<close> (line 184): \<open>self._cash + self._num_shares * self._market.current_price\<close>.\<close>

definition net_worth_fl :: "(real \<Rightarrow> real) \<Rightarrow> InvestmentAccount \<Rightarrow> error + real" where
  "net_worth_fl r a =
     (case current_price (market a) of
        Inl e \<Rightarrow> Inl e
      | Inr p \<Rightarrow> Inr (r (cash a + r (r (of_int (num_shares a)) * p))))"

text \<open>\<open>buy_stock\<close> (lines 152-156): the product is computed for the assertion and again for the update.\<close>

definition buy_stock_fl :: "(real \<Rightarrow> real) \<Rightarrow> InvestmentAccount \<Rightarrow> int \<Rightarrow> error + InvestmentAccount" where
  "buy_stock_fl r a n =
     (case current_price (market a) of
        Inl e \<Rightarrow> Inl e
      | Inr p \<Rightarrow>
          if \<not> (cash a \<ge> r (p * r (of_int n))) then Inl AssertionError
          else Inr (a\<lparr>cash := r (cash a - r (p * r (of_int n))),
                     num_shares := num_shares a + n\<rparr>))"

text \<open>\<open>sell_stock\<close> (lines 158-165).\<close>

definition sell_stock_fl ::
  "(real \<Rightarrow> real) \<Rightarrow> InvestmentAccount \<Rightarrow> int \<Rightarrow> error + (bool \<times> InvestmentAccount)" where
  "sell_stock_fl r a n =
     (case current_price (market a) of
        Inl e \<Rightarrow> Inl e
      | Inr p \<Rightarrow>
          if num_shares a < n then Inr (False, a)
          else Inr (True, a\<lparr>cash := r (cash a + r (p * r (of_int n))),
                           num_shares := num_shares a - n\<rparr>))"

text \<open>\<open>spend_cash\<close> (lines 167-171).\<close>

definition spend_cash_fl :: "(real \<Rightarrow> real) \<Rightarrow> InvestmentAccount \<Rightarrow> real \<Rightarrow> bool \<times> InvestmentAccount" where
  "spend_cash_fl r a amount =
     (if cash a < amount then (False, a)
      else (True, a\<lparr>cash := r (cash a - amount)\<rparr>))"

text \<open>Line 269: the difference is rounded, then the quotient, then \<open>math.ceil\<close> is taken.\<close>

definition num_shares_to_sell_fl :: "(real \<Rightarrow> real) \<Rightarrow> InvestmentAccount \<Rightarrow> real \<Rightarrow> error + int" where
  "num_shares_to_sell_fl r a w =
     (case current_price (market a) of
        Inl e \<Rightarrow> Inl e
      | Inr p \<Rightarrow>
          if p = 0 then Inl ZeroDivisionError
          else Inr \<lceil>r (r (w - cash a) / p)\<rceil>)"

text \<open>Lines 261-266.\<close>

definition this_year_withdrawal_fl :: "(real \<Rightarrow> real) \<Rightarrow> config \<Rightarrow> go_state \<Rightarrow> error + real" where
  "this_year_withdrawal_fl r cfg s =
     (case net_worth_fl r (account s) of
        Inl e \<Rightarrow> Inl e
      | Inr nw \<Rightarrow>
          Inr (if SPEND_FIXED_REAL_AMOUNT cfg then fixed_real_withdrawal s
               else r (nw * SPENDING_PERCENTAGE cfg)))"

text \<open>The body of the loop (lines 258-308); line 306 rounds \<open>1 + inflation\<close>, then the product.\<close>

definition year_step_fl ::
  "(real \<Rightarrow> real) \<Rightarrow> config \<Rightarrow> int \<Rightarrow> go_state \<Rightarrow> error + (control \<times> go_state)" where
  "year_step_fl r cfg yr s =
     (let start_shares = num_shares (account s) in
      case net_worth_fl r (account s) of
        Inl e \<Rightarrow> Inl e
      | Inr start_net_worth \<Rightarrow>
      case this_year_withdrawal_fl r cfg s of
        Inl e \<Rightarrow> Inl e
      | Inr w \<Rightarrow>
      case num_shares_to_sell_fl r (account s) w of
        Inl e \<Rightarrow> Inl e
      | Inr n \<Rightarrow>
      case sell_stock_fl r (account s) n of
        Inl e \<Rightarrow> Inl e
      | Inr (sold, a1) \<Rightarrow>
          if \<not> sold then
            Inr (Break, s\<lparr>ret := (False, Colored (''ran short in '' @ str_int yr) ''red''),
                          account := a1\<rparr>)
          else
      case spend_cash_fl r a1 w of (spent, a2) \<Rightarrow>
          if \<not> spent then
            Inr (Break, s\<lparr>ret := (False, Colored ''failed to spend cash?'' ''yellow''),
                          account := a2\<rparr>)
          else
      case current_price (market a2) of
        Inl e \<Rightarrow> Inl e
      | Inr start_share_price \<Rightarrow>
      let a3 = a2\<lparr>market := move_to_end_of_current_year (market a2)\<rparr> in
      case current_price (market a3) of
        Inl e \<Rightarrow> Inl e
      | Inr end_share_price \<Rightarrow>
      case current_inflation (market a3) of
        Inl e \<Rightarrow> Inl e
      | Inr infl \<Rightarrow>
      case net_worth_fl r a3 of
        Inl e \<Rightarrow> Inl e
      | Inr end_net_worth \<Rightarrow>
          Inr (Next,
               s\<lparr>fixed_real_withdrawal := r (fixed_real_withdrawal s * r (1 + infl)),
                 account := a3\<lparr>market := move_to_next_year (market a3)\<rparr>,
                 debug_info := debug_info s @
                   [\<lparr>row_year = yr,
                     row_start_shares = start_shares,
                     row_start_net_worth = start_net_worth,
                     row_withdrawal = w,
                     row_shares_sold = n,
                     row_unspent_cash = cash a3,
                     row_start_share_price = start_share_price,
                     row_end_share_price = end_share_price,
                     row_inflation = infl,
                     row_end_shares = num_shares a3,
                     row_end_net_worth = end_net_worth\<rparr>]\<rparr>))"

fun go_loop_fl :: "(real \<Rightarrow> real) \<Rightarrow> config \<Rightarrow> int list \<Rightarrow> go_state \<Rightarrow> error + go_state" where
  "go_loop_fl r cfg [] s = Inr s"
| "go_loop_fl r cfg (yr # yrs) s =
     (case year_step_fl r cfg yr s of
        Inl e \<Rightarrow> Inl e
      | Inr (Break, s') \<Rightarrow> Inr s'
      | Inr (Next, s') \<Rightarrow> go_loop_fl r cfg yrs s')"

text \<open>
  \<open>go\<close> (lines 230-315): line 233 rounds the product, line 236 rounds the quotient before
  \<open>math.floor\<close>.
\<close>

definition go_fl :: "(real \<Rightarrow> real) \<Rightarrow> config \<Rightarrow> InvestmentAccount \<Rightarrow> int \<Rightarrow> int
    \<Rightarrow> error + ((bool \<times> msg) \<times> InvestmentAccount \<times> debug_row list)" where
  "go_fl r cfg a start_year num_years =
     (let frw = r (cash a * SPENDING_PERCENTAGE cfg) in
      case current_price (market a) of
        Inl e \<Rightarrow> Inl e
      | Inr p \<Rightarrow>
          if p = 0 then Inl ZeroDivisionError
          else
      case buy_stock_fl r a \<lfloor>r (cash a / p)\<rfloor> of
        Inl e \<Rightarrow> Inl e
      | Inr a1 \<Rightarrow>
      case go_loop_fl r cfg [start_year..start_year + num_years - 1]
             \<lparr>ret = (True, Plain []), fixed_real_withdrawal = frw,
              account = a1, debug_info = []\<rparr> of
        Inl e \<Rightarrow> Inl e
      | Inr s \<Rightarrow> Inr (ret s, account s, debug_info s))"

text \<open>
  \<open>get_inflation_percentage\<close> (lines 318-331): \<open>percent\<close> starts as the int 1, and each
  iteration rounds \<open>1 + rate\<close> and then the product.
\<close>

fun inflation_loop_fl ::
  "(real \<Rightarrow> real) \<Rightarrow> (int \<rightharpoonup> real) \<Rightarrow> int list \<Rightarrow> real \<Rightarrow> error + real" where
  "inflation_loop_fl r infl [] percent = Inr percent"
| "inflation_loop_fl r infl (yr # yrs) percent =
     (case infl yr of
        None \<Rightarrow> Inl (KeyError yr)
      | Some k \<Rightarrow> inflation_loop_fl r infl yrs (r (percent * r (1 + k))))"

definition get_inflation_percentage_fl ::
  "(real \<Rightarrow> real) \<Rightarrow> (int \<rightharpoonup> real) \<Rightarrow> int \<Rightarrow> int \<Rightarrow> error + real" where
  "get_inflation_percentage_fl r infl start_year num_years =
     inflation_loop_fl r infl [start_year..start_year + num_years - 1] 1"

text \<open>
  \<open>nominal_to_real\<close> (line 348): the reciprocal \<open>1. / percent\<close> is rounded, then the
  product with \<open>start\<close>.
\<close>

definition nominal_to_real_fl ::
  "(real \<Rightarrow> real) \<Rightarrow> (int \<rightharpoonup> real) \<Rightarrow> real \<Rightarrow> int \<Rightarrow> int \<Rightarrow> error + real" where
  "nominal_to_real_fl r infl start start_year num_years =
     (case get_inflation_percentage_fl r infl start_year num_years of
        Inl e \<Rightarrow> Inl e
      | Inr percent \<Rightarrow>
          if percent = 0 then Inl ZeroDivisionError
          else Inr (r (start * r (1 / percent))))"

section \<open>Example data with rounding\<close>

text \<open>
  \<open>cli\<close> (lines 36-47): the option \<open>--spending_percentage\<close> is parsed to a float and divided
  by 100.
\<close>

definition cli_config :: "(real \<Rightarrow> real) \<Rightarrow> real \<Rightarrow> bool \<Rightarrow> config" where
  "cli_config r spending_percentage spend_fixed_real_amount =
     \<lparr>SPENDING_PERCENTAGE = r (r spending_percentage / 100),
      SPEND_FIXED_REAL_AMOUNT = spend_fixed_real_amount\<rparr>"

text \<open>Inflation rates parsed to floats: 5, 2 and 25 percent.\<close>

definition float_inflation :: "int \<rightharpoonup> real" where
  "float_inflation =
     [2000 \<mapsto> binary64 (5 / 100), 2001 \<mapsto> binary64 (2 / 100), 2002 \<mapsto> binary64 (1 / 4)]"

text \<open>
  A price history of the single year 2000 with the given open and close price, parsed
  to floats, and the account \<open>run_strategy\<close> creates on it.
\<close>

definition one_year_snp :: "real \<Rightarrow> real \<Rightarrow> int \<rightharpoonup> SnpYear" where
  "one_year_snp open_price close_price =
     [2000 \<mapsto> \<lparr>snp_year = 2000, snp_open = binary64 open_price,
                snp_close = binary64 close_price\<rparr>]"

definition one_year_market :: "real \<Rightarrow> real \<Rightarrow> Market" where
  "one_year_market open_price close_price =
     Market_init (one_year_snp open_price close_price) 2000 float_inflation"

definition one_year_start :: "real \<Rightarrow> real \<Rightarrow> InvestmentAccount" where
  "one_year_start open_price close_price =
     InvestmentAccount_init STARTING_CASH (one_year_market open_price close_price)"

text \<open>A history of two years in which the price falls from 1021.0 to 2.45.\<close>

definition falling_snp :: "int \<rightharpoonup> SnpYear" where
  "falling_snp =
     [2000 \<mapsto> \<lparr>snp_year = 2000, snp_open = 1021, snp_close = 1021\<rparr>,
      2001 \<mapsto> \<lparr>snp_year = 2001, snp_open = binary64 (245 / 100), snp_close = 3\<rparr>]"

definition falling_start :: InvestmentAccount where
  "falling_start = InvestmentAccount_init STARTING_CASH (Market_init falling_snp 2000 float_inflation)"

text \<open>An account with 4123.65 in cash and 6458 shares at a price of 1047.95.\<close>

definition trading_account :: InvestmentAccount where
  "trading_account =
     \<lparr>cash = binary64 (412365 / 100), market = one_year_market (104795 / 100) (104795 / 100),
      num_shares = 6458\<rparr>"

text \<open>An account with 923937.6 in cash and no shares at a price of 3.45.\<close>

definition cash_account :: InvestmentAccount where
  "cash_account =
     \<lparr>cash = binary64 (9239376 / 10), market = one_year_market (345 / 100) (345 / 100),
      num_shares = 0\<rparr>"

section \<open>Auxiliary facts\<close>

lemma floor_div_mult_le: "0 < p \<Longrightarrow> of_int \<lfloor>c / p\<rfloor> * p \<le> (c::real)"
  using of_int_floor_le [of "c / p"] by (simp only: pos_le_divide_eq)

lemma floor_div_mult_gt: "0 < p \<Longrightarrow> (c::real) < (of_int \<lfloor>c / p\<rfloor> + 1) * p"
proof -
  assume p: "0 < p"
  have "c / p < of_int \<lfloor>c / p\<rfloor> + 1" by linarith
  then show ?thesis using p by (simp only: pos_divide_less_eq)
qed

lemma ceiling_div_mult_ge: "0 < p \<Longrightarrow> (x::real) \<le> of_int \<lceil>x / p\<rceil> * p"
  using le_of_int_ceiling [of "x / p"] by (simp only: pos_divide_le_eq)


lemma example_snp_entry:
  "snp_yearly example_market (cur_year example_market) =
     Some \<lparr>snp_year = 2000, snp_open = 100, snp_close = 110\<rparr>"
  by (simp add: example_market_def Market_init_def example_snp_def)

lemma funpow_move_to_end:
  "(move_to_end_of_current_year ^^ Suc k) m = m\<lparr>at_start_of_year := False\<rparr>"
  by (induction k) (simp_all add: move_to_end_of_current_year_def)

section \<open>The account operations\<close>



text \<open>
  C7. For a year with a price record, \<open>current_price\<close> is the open price of that year in
  the start phase and its close price in the end phase; after one or more calls of
  \<open>move_to_end_of_current_year\<close> it is the close price, and a second call changes
  nothing; \<open>move_to_next_year\<close> adds one to the year and sets the phase to start.
\<close>

theorem current_price_phase:
  assumes "snp_yearly m (cur_year m) = Some y"
  shows "current_price m = Inr (if at_start_of_year m then snp_open y else snp_close y)
       \<and> current_price ((move_to_end_of_current_year ^^ Suc k) m) = Inr (snp_close y)
       \<and> move_to_end_of_current_year (move_to_end_of_current_year m) = move_to_end_of_current_year m
       \<and> cur_year (move_to_end_of_current_year m) = cur_year m
       \<and> move_to_next_year m = m\<lparr>cur_year := cur_year m + 1, at_start_of_year := True\<rparr>"
  using assms
  by (simp add: funpow_move_to_end current_price_def move_to_end_of_current_year_def
      move_to_next_year_def del: funpow.simps)

theorem current_price_phase_witness:
  "snp_yearly example_market (cur_year example_market) =
     Some \<lparr>snp_year = 2000, snp_open = 100, snp_close = 110\<rparr>
   \<and> current_price example_market = Inr 100
   \<and> current_price ((move_to_end_of_current_year ^^ Suc 2) example_market) = Inr 110
   \<and> cur_year (move_to_next_year example_market) = 2001
   \<and> at_start_of_year (move_to_next_year (move_to_end_of_current_year example_market))"
  using current_price_phase [OF example_snp_entry, of 2] example_snp_entry
  by (simp add: example_market_def Market_init_def move_to_end_of_current_year_def
      move_to_next_year_def del: funpow.simps)

section \<open>One iteration of the loop of go\<close>

lemmas year_step_defs =
  year_step_def this_year_withdrawal_def num_shares_to_sell_def sell_stock_def spend_cash_def
  net_worth_def current_inflation_def move_to_end_of_current_year_def move_to_next_year_def

lemma current_price_error: "current_price m = Inl e \<Longrightarrow> e = KeyError (cur_year m)"
  by (auto simp: current_price_def split: option.splits)

lemma current_price_move_to_end:
  "current_price m = Inr p \<Longrightarrow> \<exists>q. current_price (m\<lparr>at_start_of_year := False\<rparr>) = Inr q"
  by (auto simp: current_price_def split: option.splits)

lemma year_step_error:
  assumes "year_step cfg yr s = Inl e"
  shows "e \<noteq> AssertionError"
  using assms
  by (auto simp: year_step_defs Let_def dest!: current_price_error
      split: sum.splits option.splits if_splits prod.splits)

lemma year_step_Break:
  assumes "year_step cfg yr s = Inr (Break, s')"
  shows "fixed_real_withdrawal s' = fixed_real_withdrawal s"
    and "debug_info s' = debug_info s"
    and "market (account s') = market (account s)"
    and "ret s' = (False, Colored (''ran short in '' @ str_int yr) ''red'')
         \<or> ret s' = (False, Colored ''failed to spend cash?'' ''yellow'')"
  using assms
  by (auto simp: year_step_defs Let_def
      split: sum.splits option.splits if_splits prod.splits)

lemma year_step_Next:
  assumes "year_step cfg yr s = Inr (Next, s')"
  shows "ret s' = ret s"
    and "snp_yearly (market (account s')) = snp_yearly (market (account s))"
    and "year_to_inflation (market (account s')) = year_to_inflation (market (account s))"
    and "cur_year (market (account s')) = cur_year (market (account s)) + 1"
    and "at_start_of_year (market (account s'))"
  using assms
  by (auto simp: year_step_defs Let_def
      split: sum.splits option.splits if_splits prod.splits)

lemma year_step_Break_priced:
  assumes "year_step cfg yr s = Inr (Break, s')"
    and "current_price (market (account s)) = Inr p" and "0 < p"
  shows "ret s' = (False, Colored (''ran short in '' @ str_int yr) ''red'')"
    and "account s' = account s"
proof -
  have ge: "w \<le> cash (account s) + p * of_int \<lceil>(w - cash (account s)) / p\<rceil>" for w
    using ceiling_div_mult_ge [OF assms(3), of "w - cash (account s)"]
    by (simp add: mult.commute)
  show "ret s' = (False, Colored (''ran short in '' @ str_int yr) ''red'')"
    using assms ge
    by (auto simp: year_step_defs Let_def not_less [symmetric]
        split: sum.splits option.splits if_splits prod.splits)
  show "account s' = account s"
    using assms ge
    by (auto simp: year_step_defs Let_def not_less [symmetric]
        split: sum.splits option.splits if_splits prod.splits)
qed

lemma go_loop_error: "go_loop cfg yrs s = Inl e \<Longrightarrow> e \<noteq> AssertionError"
proof (induction yrs arbitrary: s)
  case Nil
  then show ?case by simp
next
  case (Cons yr yrs)
  show ?case
  proof (cases "year_step cfg yr s")
    case (Inl e')
    with Cons.prems have "e = e'" by simp
    with Inl show ?thesis by (simp add: year_step_error)
  next
    case (Inr r)
    obtain c s' where r: "r = (c, s')" by (cases r)
    show ?thesis
    proof (cases c)
      case Break
      with Inr r Cons.prems show ?thesis by simp
    next
      case Next
      with Inr r Cons.prems have "go_loop cfg yrs s' = Inl e" by simp
      then show ?thesis by (rule Cons.IH)
    qed
  qed
qed

lemma go_loop_ret:
  assumes "prices_positive (snp_yearly (market (account s)))"
    and "go_loop cfg yrs s = Inr s'"
  shows "ret s' = ret s \<or> (\<exists>yr\<in>set yrs. ret s' = (False, Colored (''ran short in '' @ str_int yr) ''red''))"
  using assms
proof (induction yrs arbitrary: s)
  case Nil
  then show ?case by simp
next
  case (Cons yr yrs)
  show ?case
  proof (cases "year_step cfg yr s")
    case (Inl e')
    with Cons.prems show ?thesis by simp
  next
    case (Inr r)
    obtain c t where r: "r = (c, t)" by (cases r)
    show ?thesis
    proof (cases c)
      case Break
      with Inr r Cons.prems have s': "s' = t" and st: "year_step cfg yr s = Inr (Break, s')"
        by simp_all
      obtain p where p: "current_price (market (account s)) = Inr p"
        using st by (auto simp: year_step_defs split: sum.splits)
      then have "0 < p"
        using Cons.prems(1)
        by (auto simp: prices_positive_def current_price_def split: option.splits if_splits)
      with st p show ?thesis by (simp add: year_step_Break_priced)
    next
      case Next
      with Inr r Cons.prems have st: "year_step cfg yr s = Inr (Next, t)"
        and rest: "go_loop cfg yrs t = Inr s'" by simp_all
      have "prices_positive (snp_yearly (market (account t)))"
        using Cons.prems(1) year_step_Next(2) [OF st] by simp
      from Cons.IH [OF this rest] year_step_Next(1) [OF st] show ?thesis by auto
    qed
  qed
qed

lemma buy_stock_market: "buy_stock a n = Inr a' \<Longrightarrow> market a' = market a"
  by (auto simp: buy_stock_def split: sum.splits if_splits)

lemma go_status:
  assumes "prices_positive (snp_yearly (market a))"
    and "go cfg a start_year num_years = Inr (st, b, rows)"
  shows "st = (True, Plain [])
       \<or> (\<exists>yr\<in>set [start_year..start_year + num_years - 1].
            st = (False, Colored (''ran short in '' @ str_int yr) ''red''))"
proof -
  from assms(2) obtain p a1 s where
    buy: "buy_stock a \<lfloor>cash a / p\<rfloor> = Inr a1"
    and loop: "go_loop cfg [start_year..start_year + num_years - 1]
             \<lparr>ret = (True, Plain []), fixed_real_withdrawal = cash a * SPENDING_PERCENTAGE cfg,
              account = a1, debug_info = []\<rparr> = Inr s"
    and st: "st = ret s"
    by (auto simp: go_def Let_def split: sum.splits if_splits)
  have "prices_positive (snp_yearly (market a1))"
    using assms(1) buy_stock_market [OF buy] by simp
  then show ?thesis
    using go_loop_ret [OF _ loop] st by simp
qed

section \<open>Runs on the example data\<close>

lemmas example_defs =
  example_config_def example_start_def example_market_def example_snp_def example_inflation_def
  InvestmentAccount_init_def Market_init_def STARTING_CASH_def

lemmas go_defs = go_def buy_stock_def current_price_def year_step_defs Let_def

lemma example_prices_positive: "prices_positive example_snp"
  by (auto simp: prices_positive_def example_snp_def split: if_splits)

lemma example_start_price: "current_price (market example_start) = Inr 100"
  by (simp add: current_price_def example_defs)

lemma example_go_1:
  "go example_config example_start 2000 1 =
     Inr ((True, Plain []),
          \<lparr>cash = 0,
            market = \<lparr>cur_year = 2001, at_start_of_year = True,
                      snp_yearly = example_snp, year_to_inflation = example_inflation\<rparr>,
            num_shares = 9600\<rparr>,
          [\<lparr>row_year = 2000, row_start_shares = 10000, row_start_net_worth = 1000000,
            row_withdrawal = 40000, row_shares_sold = 400, row_unspent_cash = 0,
            row_start_share_price = 100, row_end_share_price = 110, row_inflation = 1 / 20,
            row_end_shares = 9600, row_end_net_worth = 1056000\<rparr>])"
  by (simp add: go_defs example_defs)

section \<open>Buying and selling in go\<close>

text \<open>
  In exact arithmetic, at a positive current price, \<open>floor(cash / price)\<close> shares never
  cost more than the cash at hand: the assertion of \<open>buy_stock\<close> holds for the initial
  investment, the purchase goes through, what is left (at least 0, less than one share
  price) stays as cash, and no run of \<open>go\<close> ends in the assertion error.
\<close>

lemma initial_buy_affordable_exact:
  assumes "current_price (market a) = Inr p" and "0 < p"
  shows "of_int \<lfloor>cash a / p\<rfloor> * p \<le> cash a
       \<and> buy_stock a \<lfloor>cash a / p\<rfloor> =
           Inr (a\<lparr>cash := cash a - p * of_int \<lfloor>cash a / p\<rfloor>,
                  num_shares := num_shares a + \<lfloor>cash a / p\<rfloor>\<rparr>)
       \<and> 0 \<le> cash a - p * of_int \<lfloor>cash a / p\<rfloor>
       \<and> cash a - p * of_int \<lfloor>cash a / p\<rfloor> < p
       \<and> go cfg a start_year num_years \<noteq> Inl AssertionError"
proof -
  have le: "of_int \<lfloor>cash a / p\<rfloor> * p \<le> cash a"
    by (rule floor_div_mult_le [OF assms(2)])
  have buy: "buy_stock a \<lfloor>cash a / p\<rfloor> =
           Inr (a\<lparr>cash := cash a - p * of_int \<lfloor>cash a / p\<rfloor>,
                  num_shares := num_shares a + \<lfloor>cash a / p\<rfloor>\<rparr>)"
    using le assms(1) by (simp add: buy_stock_def mult.commute)
  have rest: "cash a - p * of_int \<lfloor>cash a / p\<rfloor> < p"
    using floor_div_mult_gt [OF assms(2), of "cash a"] by (simp add: algebra_simps)
  have "go cfg a start_year num_years \<noteq> Inl AssertionError"
    using assms buy
    by (auto simp: go_def Let_def dest: go_loop_error split: sum.splits)
  with le buy rest show ?thesis by (simp add: mult.commute)
qed

text \<open>
  In exact arithmetic, when the price is positive and \<open>sell_stock\<close> succeeds for the
  count \<open>ceil((withdrawal - cash) / price)\<close>, the cash covers the withdrawal and
  \<open>spend_cash\<close> succeeds; with positive prices no run of \<open>go\<close> returns the status
  "failed to spend cash?".
\<close>

lemma spend_after_sale_succeeds_exact:
  "(current_price (market a) = Inr p \<and> 0 < p \<and> num_shares_to_sell a w = Inr n
      \<and> sell_stock a n = Inr (True, a')
      \<longrightarrow> w \<le> cash a' \<and> spend_cash a' w = (True, a'\<lparr>cash := cash a' - w\<rparr>))
   \<and> (prices_positive (snp_yearly (market a)) \<and> go cfg a start_year num_years = Inr (st, b, rows)
      \<longrightarrow> st \<noteq> (False, Colored ''failed to spend cash?'' ''yellow''))"
proof (intro conjI impI)
  assume h: "current_price (market a) = Inr p \<and> 0 < p \<and> num_shares_to_sell a w = Inr n
      \<and> sell_stock a n = Inr (True, a')"
  then have n: "n = \<lceil>(w - cash a) / p\<rceil>"
    by (auto simp: num_shares_to_sell_def)
  have "w - cash a \<le> of_int n * p"
    unfolding n using h by (simp add: ceiling_div_mult_ge)
  moreover have "cash a' = cash a + p * of_int n"
    using h by (auto simp: sell_stock_def split: if_splits)
  ultimately show "w \<le> cash a'" by (simp add: mult.commute)
  then show "spend_cash a' w = (True, a'\<lparr>cash := cash a' - w\<rparr>)"
    by (simp add: spend_cash_def)
next
  assume "prices_positive (snp_yearly (market a)) \<and> go cfg a start_year num_years = Inr (st, b, rows)"
  then show "st \<noteq> (False, Colored ''failed to spend cash?'' ''yellow'')"
    using go_status [of a cfg start_year num_years st b rows] by auto
qed




section \<open>Compounded inflation\<close>

lemma inflation_loop_foldl:
  assumes "\<forall>y\<in>set yrs. infl y = Some (rate y)"
  shows "inflation_loop infl yrs c = Inr (foldl (\<lambda>acc y. acc * (1 + rate y)) c yrs)"
  using assms by (induction yrs arbitrary: c) simp_all

lemma foldl_mult_prod_list:
  "foldl (\<lambda>acc y. acc * f y) c ys = (c::real) * prod_list (map f ys)"
  by (induction ys arbitrary: c) (simp_all add: mult.assoc)

text \<open>
  In exact arithmetic, when every year of the range has an inflation rate and the
  compounded factor is not zero, \<open>nominal_to_real\<close> is the amount divided by the product
  of \<open>1 + rate\<close> over the years of the range; for zero years it is the amount itself.
\<close>

lemma nominal_to_real_exact:
  assumes "\<forall>y\<in>set [start_year..start_year + num_years - 1]. infl y = Some (rate y)"
    and "foldl (\<lambda>acc y. acc * (1 + rate y)) 1 [start_year..start_year + num_years - 1] \<noteq> 0"
  shows "get_inflation_percentage infl start_year num_years =
           Inr (foldl (\<lambda>acc y. acc * (1 + rate y)) 1 [start_year..start_year + num_years - 1])
       \<and> nominal_to_real infl amount start_year num_years =
           Inr (amount / foldl (\<lambda>acc y. acc * (1 + rate y)) 1 [start_year..start_year + num_years - 1])
       \<and> foldl (\<lambda>acc y. acc * (1 + rate y)) 1 [start_year..start_year + num_years - 1] =
           (\<Prod>y = start_year..start_year + num_years - 1. 1 + rate y)
       \<and> nominal_to_real infl2 amount2 year2 0 = Inr amount2"
proof -
  have g: "get_inflation_percentage infl start_year num_years =
           Inr (foldl (\<lambda>acc y. acc * (1 + rate y)) 1 [start_year..start_year + num_years - 1])"
    unfolding get_inflation_percentage_def by (rule inflation_loop_foldl [OF assms(1)])
  have n: "nominal_to_real infl amount start_year num_years =
           Inr (amount / foldl (\<lambda>acc y. acc * (1 + rate y)) 1 [start_year..start_year + num_years - 1])"
    using assms(2) by (simp add: nominal_to_real_def g divide_inverse)
  have p: "foldl (\<lambda>acc y. acc * (1 + rate y)) 1 [start_year..start_year + num_years - 1] =
           (\<Prod>y = start_year..start_year + num_years - 1. 1 + rate y)"
    using prod.distinct_set_conv_list [of "[start_year..start_year + num_years - 1]" "\<lambda>y. 1 + rate y"]
    by (simp add: foldl_mult_prod_list)
  have z: "nominal_to_real infl2 amount2 year2 0 = Inr amount2"
    by (simp add: nominal_to_real_def get_inflation_percentage_def)
  from g n p z show ?thesis by simp
qed

section \<open>The fixed real withdrawal\<close>








section \<open>Running short of shares\<close>

lemma year_step_sell_fails:
  assumes "this_year_withdrawal cfg s = Inr w"
    and "num_shares_to_sell (account s) w = Inr n"
    and "sell_stock (account s) n = Inr (False, a')"
  shows "year_step cfg yr s =
           Inr (Break, s\<lparr>ret := (False, Colored (''ran short in '' @ str_int yr) ''red'')\<rparr>)"
proof -
  from assms(3) have a': "a' = account s"
    by (auto simp: sell_stock_def split: sum.splits if_splits)
  from assms(1) obtain nw where nw: "net_worth (account s) = Inr nw"
    by (auto simp: this_year_withdrawal_def split: sum.splits)
  show ?thesis
    using assms nw unfolding a' by (simp add: year_step_def)
qed

lemma go_loop_append:
  assumes "go_loop cfg ys s = Inr s1" and "fst (ret s1)"
  shows "go_loop cfg (ys @ zs) s = go_loop cfg zs s1"
  using assms(1)
proof (induction ys arbitrary: s)
  case Nil
  then show ?case by simp
next
  case (Cons y ys)
  show ?case
  proof (cases "year_step cfg y s")
    case (Inl e)
    with Cons.prems show ?thesis by simp
  next
    case (Inr r)
    obtain c t where r: "r = (c, t)" by (cases r)
    show ?thesis
    proof (cases c)
      case Break
      with Inr r Cons.prems have "year_step cfg y s = Inr (Break, s1)" by simp
      from year_step_Break(4) [OF this] assms(2) show ?thesis by auto
    next
      case Next
      with Inr r Cons.prems have "go_loop cfg ys t = Inr s1" by simp
      from Cons.IH [OF this] Inr r Next show ?thesis by simp
    qed
  qed
qed

lemma go_loop_ran_short:
  assumes "go_loop cfg yrs s = Inr s1" and "fst (ret s1)"
    and "this_year_withdrawal cfg s1 = Inr w"
    and "num_shares_to_sell (account s1) w = Inr n"
    and "sell_stock (account s1) n = Inr (False, a')"
  shows "go_loop cfg (yrs @ yr # rest) s =
           Inr (s1\<lparr>ret := (False, Colored (''ran short in '' @ str_int yr) ''red'')\<rparr>)"
  using go_loop_append [OF assms(1,2)] year_step_sell_fails [OF assms(3,4,5)]
  by simp

lemma example_go_60:
  "go example_config_60 example_start 2000 3 =
     Inr ((False, Colored ''ran short in 2001'' ''red''),
          \<lparr>cash = 0,
            market = \<lparr>cur_year = 2001, at_start_of_year = True,
                      snp_yearly = example_snp, year_to_inflation = example_inflation\<rparr>,
            num_shares = 4000\<rparr>,
          [\<lparr>row_year = 2000, row_start_shares = 10000, row_start_net_worth = 1000000,
            row_withdrawal = 600000, row_shares_sold = 6000, row_unspent_cash = 0,
            row_start_share_price = 100, row_end_share_price = 110, row_inflation = 1 / 20,
            row_end_shares = 4000, row_end_net_worth = 440000\<rparr>])"
  by (simp add: go_defs example_defs example_config_60_def upto_rec1
      str_int_def str_nat.simps digit_char_def)

lemma example_years_range: "str_int 2000 @ '' - '' @ str_int (2000 + 3) = ''2000 - 2003''"
  by (simp add: str_int_def str_nat.simps digit_char_def)

text \<open>
  C6. When the years before \<open>yr\<close> complete and \<open>sell_stock\<close> fails in year \<open>yr\<close>, the loop
  of \<open>go\<close> ends there with the status \<open>(False, "ran short in yr")\<close>, in red: the account
  and the rows are those the year started with, whatever years follow in the range; \<open>go\<close>
  returns that status as its value. \<open>run_start_year\<close> turns a status \<open>(False, reason)\<close> of
  the strategy into the row of the years range, the reason and four empty cells, and
  \<open>run_strategy_loop\<close> adds the row and goes on with the next start year.
\<close>

theorem depletion_reported:
  "(go_loop cfg yrs s = Inr s1 \<and> fst (ret s1)
      \<and> this_year_withdrawal cfg s1 = Inr w
      \<and> num_shares_to_sell (account s1) w = Inr n
      \<and> sell_stock (account s1) n = Inr (False, a')
    \<longrightarrow> go_loop cfg (yrs @ yr # rest) s =
          Inr (s1\<lparr>ret := (False, Colored (''ran short in '' @ str_int yr) ''red'')\<rparr>))
   \<and> (current_price (market a) = Inr p \<and> p \<noteq> 0 \<and> buy_stock a \<lfloor>cash a / p\<rfloor> = Inr a1
      \<and> start_year \<le> y \<and> y \<le> start_year + num_years - 1
      \<and> go_loop cfg [start_year..y - 1]
           \<lparr>ret = (True, Plain []), fixed_real_withdrawal = cash a * SPENDING_PERCENTAGE cfg,
            account = a1, debug_info = []\<rparr> = Inr s2
      \<and> fst (ret s2)
      \<and> this_year_withdrawal cfg s2 = Inr w2
      \<and> num_shares_to_sell (account s2) w2 = Inr n2
      \<and> sell_stock (account s2) n2 = Inr (False, a2)
    \<longrightarrow> go cfg a start_year num_years =
          Inr ((False, Colored (''ran short in '' @ str_int y) ''red''),
               account s2, debug_info s2))
   \<and> (strategy_go (InvestmentAccount_init STARTING_CASH (Market_init snp sy infl)) sy num_years =
        Inr ((False, reason), b, rows)
    \<longrightarrow> run_start_year strategy_go snp infl num_years sy =
          Inr [Str (str_int sy @ '' - '' @ str_int (sy + num_years)), Status reason,
               Str [], Str [], Str [], Str []]
        \<and> run_strategy_loop strategy_go snp infl num_years (sy # sys) display =
            run_strategy_loop strategy_go snp infl num_years sys
              (display @ [[Str (str_int sy @ '' - '' @ str_int (sy + num_years)), Status reason,
                           Str [], Str [], Str [], Str []]]))"
proof (intro conjI impI)
  assume "go_loop cfg yrs s = Inr s1 \<and> fst (ret s1)
      \<and> this_year_withdrawal cfg s1 = Inr w
      \<and> num_shares_to_sell (account s1) w = Inr n
      \<and> sell_stock (account s1) n = Inr (False, a')"
  then show "go_loop cfg (yrs @ yr # rest) s =
          Inr (s1\<lparr>ret := (False, Colored (''ran short in '' @ str_int yr) ''red'')\<rparr>)"
    by (simp add: go_loop_ran_short)
next
  assume h: "current_price (market a) = Inr p \<and> p \<noteq> 0 \<and> buy_stock a \<lfloor>cash a / p\<rfloor> = Inr a1
      \<and> start_year \<le> y \<and> y \<le> start_year + num_years - 1
      \<and> go_loop cfg [start_year..y - 1]
           \<lparr>ret = (True, Plain []), fixed_real_withdrawal = cash a * SPENDING_PERCENTAGE cfg,
            account = a1, debug_info = []\<rparr> = Inr s2
      \<and> fst (ret s2)
      \<and> this_year_withdrawal cfg s2 = Inr w2
      \<and> num_shares_to_sell (account s2) w2 = Inr n2
      \<and> sell_stock (account s2) n2 = Inr (False, a2)"
  then have split: "[start_year..start_year + num_years - 1] =
      [start_year..y - 1] @ y # [y + 1..start_year + num_years - 1]"
    by (simp add: upto_split3)
  from h have "go_loop cfg ([start_year..y - 1] @ y # [y + 1..start_year + num_years - 1])
           \<lparr>ret = (True, Plain []), fixed_real_withdrawal = cash a * SPENDING_PERCENTAGE cfg,
            account = a1, debug_info = []\<rparr> =
         Inr (s2\<lparr>ret := (False, Colored (''ran short in '' @ str_int y) ''red'')\<rparr>)"
    by (simp add: go_loop_ran_short)
  with h show "go cfg a start_year num_years =
          Inr ((False, Colored (''ran short in '' @ str_int y) ''red''),
               account s2, debug_info s2)"
    unfolding go_def split by (simp add: Let_def)
next
  assume h: "strategy_go (InvestmentAccount_init STARTING_CASH (Market_init snp sy infl)) sy num_years =
        Inr ((False, reason), b, rows)"
  then show row: "run_start_year strategy_go snp infl num_years sy =
          Inr [Str (str_int sy @ '' - '' @ str_int (sy + num_years)), Status reason,
               Str [], Str [], Str [], Str []]"
    by (simp add: run_start_year_def Let_def)
  show "run_strategy_loop strategy_go snp infl num_years (sy # sys) display =
            run_strategy_loop strategy_go snp infl num_years sys
              (display @ [[Str (str_int sy @ '' - '' @ str_int (sy + num_years)), Status reason,
                           Str [], Str [], Str [], Str []]])"
    by (simp add: row)
qed

theorem depletion_reported_witness:
  "go example_config_60 example_start 2000 3 =
     Inr ((False, Colored ''ran short in 2001'' ''red''),
          \<lparr>cash = 0,
            market = \<lparr>cur_year = 2001, at_start_of_year = True,
                      snp_yearly = example_snp, year_to_inflation = example_inflation\<rparr>,
            num_shares = 4000\<rparr>,
          [\<lparr>row_year = 2000, row_start_shares = 10000, row_start_net_worth = 1000000,
            row_withdrawal = 600000, row_shares_sold = 6000, row_unspent_cash = 0,
            row_start_share_price = 100, row_end_share_price = 110, row_inflation = 1 / 20,
            row_end_shares = 4000, row_end_net_worth = 440000\<rparr>])
   \<and> run_start_year (go example_config_60) example_snp example_inflation 3 2000 =
       Inr [Str ''2000 - 2003'', Status (Colored ''ran short in 2001'' ''red''),
            Str [], Str [], Str [], Str []]
   \<and> run_strategy (go example_config_60) example_snp example_inflation [2000] 3 =
       Inr [display_header,
            [Str ''2000 - 2003'', Status (Colored ''ran short in 2001'' ''red''),
             Str [], Str [], Str [], Str []]]"
  using depletion_reported [where strategy_go = "go example_config_60" and snp = example_snp
      and sy = 2000 and infl = example_inflation and num_years = 3
      and reason = "Colored ''ran short in 2001'' ''red''" and sys = "[]"
      and display = "[display_header]"]
    example_go_60 example_years_range
  by (simp add: run_strategy_def example_start_def example_market_def)

section \<open>The account invariant in exact arithmetic\<close>

text \<open>
  In exact arithmetic, with positive prices, a spending percentage that is not negative
  and no inflation rate below -1, every operation of a run of \<open>go\<close> keeps the cash and
  the share count from going negative.
\<close>

lemma prices_positive_price:
  "prices_positive (snp_yearly m) \<Longrightarrow> current_price m = Inr p \<Longrightarrow> 0 < p"
  by (auto simp: prices_positive_def current_price_def split: option.splits if_splits)

lemma buy_floor_ok:
  assumes "account_ok a" and "current_price (market a) = Inr p" and "0 < p"
  shows "\<exists>a'. buy_stock a \<lfloor>cash a / p\<rfloor> = Inr a' \<and> account_ok a'"
proof -
  have le: "of_int \<lfloor>cash a / p\<rfloor> * p \<le> cash a"
    by (rule floor_div_mult_le [OF assms(3)])
  have "0 \<le> cash a / p" using assms(1,3) by (simp add: account_ok_def)
  then have "0 \<le> \<lfloor>cash a / p\<rfloor>" by simp
  with le assms(1,2) show ?thesis
    by (simp add: buy_stock_def account_ok_def mult.commute)
qed

lemma sell_ceiling_ok:
  assumes "account_ok a" and "current_price (market a) = Inr p" and "0 < p"
    and "0 \<le> w" and "num_shares_to_sell a w = Inr n" and "sell_stock a n = Inr (True, a')"
  shows "account_ok a'" and "w \<le> cash a'"
proof -
  from assms(2,5) have n: "n = \<lceil>(w - cash a) / p\<rceil>"
    by (auto simp: num_shares_to_sell_def split: if_splits)
  have "w - cash a \<le> of_int n * p"
    unfolding n by (rule ceiling_div_mult_ge [OF assms(3)])
  moreover from assms(2,6) have a': "\<not> num_shares a < n"
    "a' = a\<lparr>cash := cash a + p * of_int n, num_shares := num_shares a - n\<rparr>"
    by (auto simp: sell_stock_def split: if_splits)
  ultimately show "w \<le> cash a'" by (simp add: mult.commute)
  with assms(4) a' show "account_ok a'" by (simp add: account_ok_def)
qed

lemma spend_ok: "account_ok a \<Longrightarrow> spend_cash a x = (True, a') \<Longrightarrow> account_ok a'"
  by (auto simp: spend_cash_def account_ok_def split: if_splits)

lemma year_step_ok:
  assumes "year_step cfg yr s = Inr (c, s')"
    and "account_ok (account s)" and "0 \<le> fixed_real_withdrawal s"
    and "0 \<le> SPENDING_PERCENTAGE cfg"
    and "prices_positive (snp_yearly (market (account s)))"
    and "inflation_bounded (year_to_inflation (market (account s)))"
  shows "account_ok (account s')" and "0 \<le> fixed_real_withdrawal s'"
proof -
  from assms(1) obtain nw w n sold a1 where
    nw: "net_worth (account s) = Inr nw"
    and w: "this_year_withdrawal cfg s = Inr w"
    and n: "num_shares_to_sell (account s) w = Inr n"
    and sell: "sell_stock (account s) n = Inr (sold, a1)"
    by (auto simp: year_step_def Let_def split: sum.splits prod.splits)
  from nw obtain p where p: "current_price (market (account s)) = Inr p"
    by (auto simp: net_worth_def split: sum.splits)
  have pos: "0 < p" by (rule prices_positive_price [OF assms(5) p])
  have "0 \<le> nw"
    using nw p pos assms(2) by (auto simp: net_worth_def account_ok_def)
  with w nw assms(3,4) have w0: "0 \<le> w"
    by (auto simp: this_year_withdrawal_def split: if_splits)
  show "account_ok (account s')"
  proof (cases sold)
    case False
    with sell have "a1 = account s"
      by (auto simp: sell_stock_def split: sum.splits if_splits)
    with assms(1,2) nw w n sell False show ?thesis
      by (auto simp: year_step_def)
  next
    case True
    with sell have ok1: "account_ok a1"
      using sell_ceiling_ok(1) [OF assms(2) p pos w0 n] by simp
    obtain spent a2 where spend: "spend_cash a1 w = (spent, a2)" by (cases "spend_cash a1 w")
    have ok2: "account_ok a2"
    proof (cases spent)
      case True
      with spend ok1 show ?thesis by (simp add: spend_ok)
    next
      case False
      with spend have "a2 = a1" by (auto simp: spend_cash_def split: if_splits)
      with ok1 show ?thesis by simp
    qed
    from assms(1) nw w n sell True spend ok2 show ?thesis
      by (auto simp: year_step_def Let_def account_ok_def move_to_end_of_current_year_def
          move_to_next_year_def split: sum.splits if_splits)
  qed
  show "0 \<le> fixed_real_withdrawal s'"
  proof (cases c)
    case Break
    with assms(1) have "fixed_real_withdrawal s' = fixed_real_withdrawal s"
      by (simp add: year_step_Break(1))
    with assms(3) show ?thesis by simp
  next
    case Next
    with assms(1) obtain r where
      "year_to_inflation (market (account s)) (cur_year (market (account s))) = Some r"
      "fixed_real_withdrawal s' = fixed_real_withdrawal s * (1 + r)"
      by (auto simp: year_step_defs Let_def
          split: sum.splits option.splits if_splits prod.splits)
    moreover from this(1) assms(6) have "- 1 \<le> r"
      unfolding inflation_bounded_def by blast
    ultimately show ?thesis using assms(3) by simp
  qed
qed

lemma go_loop_ok:
  assumes "0 \<le> SPENDING_PERCENTAGE cfg"
  shows "go_loop cfg yrs s = Inr s' \<Longrightarrow> account_ok (account s)
    \<Longrightarrow> 0 \<le> fixed_real_withdrawal s
    \<Longrightarrow> prices_positive (snp_yearly (market (account s)))
    \<Longrightarrow> inflation_bounded (year_to_inflation (market (account s)))
    \<Longrightarrow> account_ok (account s')"
proof (induction yrs arbitrary: s)
  case Nil
  then show ?case by simp
next
  case (Cons yr yrs)
  show ?case
  proof (cases "year_step cfg yr s")
    case (Inl e)
    with Cons.prems(1) show ?thesis by simp
  next
    case (Inr r)
    obtain c t where r: "r = (c, t)" by (cases r)
    with Inr have st: "year_step cfg yr s = Inr (c, t)" by simp
    note ok = year_step_ok [OF st Cons.prems(2,3) assms Cons.prems(4,5)]
    show ?thesis
    proof (cases c)
      case Break
      with st Cons.prems(1) have "s' = t" by simp
      with ok(1) show ?thesis by simp
    next
      case Next
      with st Cons.prems(1) have rest: "go_loop cfg yrs t = Inr s'" by simp
      from st Next have stn: "year_step cfg yr s = Inr (Next, t)" by simp
      have "prices_positive (snp_yearly (market (account t)))"
        "inflation_bounded (year_to_inflation (market (account t)))"
        using Cons.prems(4,5) year_step_Next(2,3) [OF stn] by simp_all
      with Cons.IH [OF rest ok] show ?thesis by simp
    qed
  qed
qed

lemma go_ok:
  assumes "account_ok a" and "0 \<le> SPENDING_PERCENTAGE cfg"
    and "prices_positive (snp_yearly (market a))"
    and "inflation_bounded (year_to_inflation (market a))"
    and "go cfg a start_year num_years = Inr (st, b, rows)"
  shows "account_ok b"
proof -
  from assms(5) obtain p a1 s where
    p: "current_price (market a) = Inr p"
    and buy: "buy_stock a \<lfloor>cash a / p\<rfloor> = Inr a1"
    and loop: "go_loop cfg [start_year..start_year + num_years - 1]
             \<lparr>ret = (True, Plain []), fixed_real_withdrawal = cash a * SPENDING_PERCENTAGE cfg,
              account = a1, debug_info = []\<rparr> = Inr s"
    and b: "b = account s"
    by (auto simp: go_def Let_def split: sum.splits if_splits)
  have pos: "0 < p" by (rule prices_positive_price [OF assms(3) p])
  from buy_floor_ok [OF assms(1) p pos] buy have ok1: "account_ok a1" by simp
  have m: "market a1 = market a" by (rule buy_stock_market [OF buy])
  have "0 \<le> cash a * SPENDING_PERCENTAGE cfg"
    using assms(1,2) by (simp add: account_ok_def)
  with go_loop_ok [OF assms(2) loop] ok1 m assms(3,4) b show ?thesis by simp
qed

lemma example_account_ok: "account_ok example_account"
  by (simp add: account_ok_def example_account_def)

lemma example_start_ok: "account_ok example_start"
  by (simp add: account_ok_def example_defs)

lemma example_inflation_bounded: "inflation_bounded example_inflation"
  by (auto simp: inflation_bounded_def example_inflation_def split: if_splits)

section \<open>Rounding to binary64\<close>

lemmas binary64_eval =
  binary64_def quantize_def ulp_def exponent_def pow2_def round_half_even_def frac_def
  bit_length.simps

lemmas go_fl_defs =
  go_fl_def buy_stock_fl_def current_price_def year_step_fl_def net_worth_fl_def
  this_year_withdrawal_fl_def num_shares_to_sell_fl_def sell_stock_fl_def spend_cash_fl_def
  move_to_end_of_current_year_def move_to_next_year_def current_inflation_def Let_def

lemmas float_example_defs =
  cli_config_def float_inflation_def one_year_snp_def one_year_market_def one_year_start_def
  falling_snp_def falling_start_def trading_account_def cash_account_def
  InvestmentAccount_init_def Market_init_def STARTING_CASH_def

text \<open>
  Integers below \<open>2 ^ 53\<close> and sums of few powers of two are binary64 numbers; the decimal
  fractions 0.1 and 15.14 are not, and \<open>2 ^ 53 + 1\<close> is a tie that goes to the even
  significand.
\<close>

lemma binary64_examples:
  "binary64 1 = 1" "binary64 1000000 = 1000000" "binary64 (- 40000) = - 40000"
  "binary64 (3 / 4) = 3 / 4"
  "binary64 (1 / 10) = 3602879701896397 / 36028797018963968"
  "binary64 (1514 / 100) = 1065382786849833 / 70368744177664"
  "binary64 (2 ^ 53 + 1) = 2 ^ 53"
  "binary64 (2 ^ 53 + 3) = 2 ^ 53 + 4"
  by (simp_all add: binary64_eval)

text \<open>Without rounding the layer is the exact arithmetic of the first definitions.\<close>

lemma exact_operations:
  "net_worth_fl (\<lambda>x. x) a = net_worth a"
  "buy_stock_fl (\<lambda>x. x) a n = buy_stock a n"
  "sell_stock_fl (\<lambda>x. x) a n = sell_stock a n"
  "spend_cash_fl (\<lambda>x. x) a x = spend_cash a x"
  "num_shares_to_sell_fl (\<lambda>x. x) a w = num_shares_to_sell a w"
  "this_year_withdrawal_fl (\<lambda>x. x) cfg s = this_year_withdrawal cfg s"
  by (simp_all add: net_worth_fl_def net_worth_def buy_stock_fl_def buy_stock_def
      sell_stock_fl_def sell_stock_def spend_cash_fl_def spend_cash_def
      num_shares_to_sell_fl_def num_shares_to_sell_def
      this_year_withdrawal_fl_def this_year_withdrawal_def)

lemma exact_year_step: "year_step_fl (\<lambda>x. x) cfg yr s = year_step cfg yr s"
  unfolding year_step_fl_def year_step_def exact_operations ..

lemma exact_go_loop: "go_loop_fl (\<lambda>x. x) cfg yrs s = go_loop cfg yrs s"
  by (induction yrs arbitrary: s) (simp_all add: exact_year_step split: sum.splits control.splits)

lemma exact_go: "go_fl (\<lambda>x. x) cfg a start_year num_years = go cfg a start_year num_years"
  unfolding go_fl_def go_def exact_operations exact_go_loop ..

lemma exact_inflation_loop: "inflation_loop_fl (\<lambda>x. x) infl yrs c = inflation_loop infl yrs c"
  by (induction yrs arbitrary: c) (simp_all split: option.splits)

lemma exact_nominal_to_real:
  "get_inflation_percentage_fl (\<lambda>x. x) infl start_year num_years =
     get_inflation_percentage infl start_year num_years"
  "nominal_to_real_fl (\<lambda>x. x) infl start start_year num_years =
     nominal_to_real infl start start_year num_years"
  by (simp_all add: get_inflation_percentage_fl_def get_inflation_percentage_def
      nominal_to_real_fl_def nominal_to_real_def exact_inflation_loop)

section \<open>Rounding in the account operations\<close>

lemma trading_account_fields:
  "cash trading_account = 2267000561939251 / 549755813888"
  "num_shares trading_account = 6458"
  "current_price (market trading_account) = Inr (4608932841311437 / 4398046511104)"
  by (simp_all add: current_price_def float_example_defs binary64_eval)

lemma trading_sell:
  "sell_stock_fl binary64 trading_account 3663 =
     Inr (True, trading_account\<lparr>cash := 7685529 / 2, num_shares := 2795\<rparr>)"
  by (simp add: sell_stock_fl_def trading_account_fields binary64_eval)

lemma trading_buy:
  "buy_stock_fl binary64 trading_account 3 =
     Inr (trading_account\<lparr>cash := 269325373223731 / 274877906944, num_shares := 6461\<rparr>)"
  by (simp add: buy_stock_fl_def trading_account_fields binary64_eval)

lemma trading_spend:
  "spend_cash_fl binary64 trading_account 1000 =
     (True, trading_account\<lparr>cash := 1717244748051251 / 549755813888\<rparr>)"
  by (simp add: spend_cash_fl_def trading_account_fields binary64_eval)

text \<open>
  The claim C10 as stated fails: with 4123.65 in cash and 6458 shares at the price
  1047.95 the net worth is 6771784.750000001; \<open>sell_stock(3663)\<close> succeeds and the net
  worth is 6771784.75 afterwards, and so it is after \<open>buy_stock(3)\<close>.
\<close>

theorem net_worth_changed_by_trade:
  "net_worth_fl binary64 trading_account = Inr (7271148509200385 / 1073741824)
   \<and> sell_stock_fl binary64 trading_account 3663 =
       Inr (True, trading_account\<lparr>cash := 7685529 / 2, num_shares := 2795\<rparr>)
   \<and> net_worth_fl binary64 (trading_account\<lparr>cash := 7685529 / 2, num_shares := 2795\<rparr>) =
       Inr (27087139 / 4)
   \<and> buy_stock_fl binary64 trading_account 3 =
       Inr (trading_account\<lparr>cash := 269325373223731 / 274877906944, num_shares := 6461\<rparr>)
   \<and> net_worth_fl binary64
        (trading_account\<lparr>cash := 269325373223731 / 274877906944, num_shares := 6461\<rparr>) =
       Inr (27087139 / 4)
   \<and> (27087139 / 4 :: real) \<noteq> 7271148509200385 / 1073741824"
  by (simp add: net_worth_fl_def trading_account_fields trading_sell trading_buy binary64_eval)

text \<open>
  C10, as the code has it. With the clock untouched and whatever the rounding function, a
  successful \<open>buy_stock(n)\<close> or \<open>sell_stock(n)\<close> leaves the market as it was, changes the
  share count by \<open>n\<close> and the cash by the rounded product \<open>price * n\<close>, the difference or
  sum being rounded again. The exact value of cash plus shares times price changes by
  the rounding errors of these two operations and by nothing else: it is unchanged when
  they are exact. \<open>spend_cash(amount)\<close> leaves market and shares as they were and lowers
  the cash by the amount, rounded.
\<close>

theorem trades_round_net_worth:
  assumes "current_price (market a) = Inr p"
  shows "(buy_stock_fl r a n = Inr a' \<longrightarrow>
            market a' = market a \<and> num_shares a' = num_shares a + n
          \<and> cash a' = r (cash a - r (p * r (of_int n)))
          \<and> (cash a' + of_int (num_shares a') * p) - (cash a + of_int (num_shares a) * p) =
              (r (cash a - r (p * r (of_int n))) - (cash a - r (p * r (of_int n))))
              - (r (p * r (of_int n)) - p * of_int n))
       \<and> (sell_stock_fl r a n = Inr (True, a'') \<longrightarrow>
            market a'' = market a \<and> num_shares a'' = num_shares a - n
          \<and> cash a'' = r (cash a + r (p * r (of_int n)))
          \<and> (cash a'' + of_int (num_shares a'') * p) - (cash a + of_int (num_shares a) * p) =
              (r (cash a + r (p * r (of_int n))) - (cash a + r (p * r (of_int n))))
              + (r (p * r (of_int n)) - p * of_int n))
       \<and> (r (p * r (of_int n)) = p * of_int n \<and> r (cash a - p * of_int n) = cash a - p * of_int n
            \<and> buy_stock_fl r a n = Inr a' \<longrightarrow>
            cash a' + of_int (num_shares a') * p = cash a + of_int (num_shares a) * p)
       \<and> (r (p * r (of_int n)) = p * of_int n \<and> r (cash a + p * of_int n) = cash a + p * of_int n
            \<and> sell_stock_fl r a n = Inr (True, a'') \<longrightarrow>
            cash a'' + of_int (num_shares a'') * p = cash a + of_int (num_shares a) * p)
       \<and> (spend_cash_fl r a x = (True, b) \<longrightarrow>
            market b = market a \<and> num_shares b = num_shares a \<and> cash b = r (cash a - x))"
proof -
  have buy: "market a' = market a \<and> num_shares a' = num_shares a + n
          \<and> cash a' = r (cash a - r (p * r (of_int n)))"
    if "buy_stock_fl r a n = Inr a'"
    using that assms by (auto simp: buy_stock_fl_def split: if_splits)
  have sell: "market a'' = market a \<and> num_shares a'' = num_shares a - n
          \<and> cash a'' = r (cash a + r (p * r (of_int n)))"
    if "sell_stock_fl r a n = Inr (True, a'')"
    using that assms by (auto simp: sell_stock_fl_def split: if_splits)
  have spend: "market b = market a \<and> num_shares b = num_shares a \<and> cash b = r (cash a - x)"
    if "spend_cash_fl r a x = (True, b)"
    using that by (auto simp: spend_cash_fl_def split: if_splits)
  have buy_worth: "(cash a' + of_int (num_shares a') * p) - (cash a + of_int (num_shares a) * p) =
              (r (cash a - r (p * r (of_int n))) - (cash a - r (p * r (of_int n))))
              - (r (p * r (of_int n)) - p * of_int n)"
    if "buy_stock_fl r a n = Inr a'"
  proof -
    from buy [OF that] have m: "num_shares a' = num_shares a + n"
      and c: "cash a' = r (cash a - r (p * r (of_int n)))" by simp_all
    show ?thesis unfolding m c by (simp add: algebra_simps)
  qed
  have sell_worth: "(cash a'' + of_int (num_shares a'') * p) - (cash a + of_int (num_shares a) * p) =
              (r (cash a + r (p * r (of_int n))) - (cash a + r (p * r (of_int n))))
              + (r (p * r (of_int n)) - p * of_int n)"
    if "sell_stock_fl r a n = Inr (True, a'')"
  proof -
    from sell [OF that] have m: "num_shares a'' = num_shares a - n"
      and c: "cash a'' = r (cash a + r (p * r (of_int n)))" by simp_all
    show ?thesis unfolding m c by (simp add: algebra_simps)
  qed
  have buy_exact: "cash a' + of_int (num_shares a') * p = cash a + of_int (num_shares a) * p"
    if "r (p * r (of_int n)) = p * of_int n" "r (cash a - p * of_int n) = cash a - p * of_int n"
      "buy_stock_fl r a n = Inr a'"
    using buy_worth [OF that(3)] that(1,2) by simp
  have sell_exact: "cash a'' + of_int (num_shares a'') * p = cash a + of_int (num_shares a) * p"
    if "r (p * r (of_int n)) = p * of_int n" "r (cash a + p * of_int n) = cash a + p * of_int n"
      "sell_stock_fl r a n = Inr (True, a'')"
    using sell_worth [OF that(3)] that(1,2) by simp
  show ?thesis
    using buy sell spend buy_worth sell_worth buy_exact sell_exact by blast
qed

theorem trades_round_net_worth_witness:
  "current_price (market trading_account) = Inr (4608932841311437 / 4398046511104)
   \<and> sell_stock_fl binary64 trading_account 3663 =
       Inr (True, trading_account\<lparr>cash := 7685529 / 2, num_shares := 2795\<rparr>)
   \<and> (7685529 / 2 + 2795 * (4608932841311437 / 4398046511104))
       - (2267000561939251 / 549755813888 + 6458 * (4608932841311437 / 4398046511104)) =
       (binary64 (2267000561939251 / 549755813888
                  + binary64 (4608932841311437 / 4398046511104 * binary64 3663))
        - (2267000561939251 / 549755813888
           + binary64 (4608932841311437 / 4398046511104 * binary64 3663)))
       + (binary64 (4608932841311437 / 4398046511104 * binary64 3663)
          - 4608932841311437 / 4398046511104 * 3663)
   \<and> buy_stock_fl binary64 trading_account 3 =
       Inr (trading_account\<lparr>cash := 269325373223731 / 274877906944, num_shares := 6461\<rparr>)
   \<and> 269325373223731 / 274877906944 =
       binary64 (2267000561939251 / 549755813888
                 - binary64 (4608932841311437 / 4398046511104 * binary64 3))
   \<and> spend_cash_fl binary64 trading_account 1000 =
       (True, trading_account\<lparr>cash := 1717244748051251 / 549755813888\<rparr>)
   \<and> 1717244748051251 / 549755813888 = binary64 (2267000561939251 / 549755813888 - 1000)"
  using trades_round_net_worth [OF trading_account_fields(3), where r = binary64 and n = 3663
      and a'' = "trading_account\<lparr>cash := 7685529 / 2, num_shares := 2795\<rparr>"
      and a' = trading_account and x = 1000
      and b = "trading_account\<lparr>cash := 1717244748051251 / 549755813888\<rparr>"]
    trades_round_net_worth [OF trading_account_fields(3), where r = binary64 and n = 3
      and a' = "trading_account\<lparr>cash := 269325373223731 / 274877906944, num_shares := 6461\<rparr>"
      and a'' = trading_account and x = 1000 and b = trading_account]
  by (simp add: trading_account_fields trading_sell trading_buy trading_spend)

section \<open>Rounding in the initial purchase\<close>

text \<open>
  C9. With the rounding of the code the initial purchase can fail the assertion of
  \<open>buy_stock\<close>. For the starting cash 1000000.0 and the open price 24390.243902439026 the
  float quotient \<open>cash / price\<close> is 41.0 although the exact quotient is below 41, so
  \<open>math.floor\<close> gives 41 shares where 40 are affordable; their cost, 1000000.0000000001,
  exceeds the cash, and \<open>go\<close> ends in the \<open>AssertionError\<close>. The same happens for
  923937.6 in cash at the price 3.45: the count is 267808, the exact floor 267807, the
  cost 923937.6000000001.
\<close>

theorem initial_buy_assertion_fires:
  "go_fl binary64 (cli_config binary64 4 True)
      (one_year_start (24390243902439026 / 1000000000000) 25000) 2000 1 = Inl AssertionError
   \<and> current_price (market (one_year_start (24390243902439026 / 1000000000000) 25000)) =
       Inr (3352169596878049 / 137438953472)
   \<and> \<lfloor>binary64 (STARTING_CASH / (3352169596878049 / 137438953472))\<rfloor> = 41
   \<and> \<lfloor>STARTING_CASH / (3352169596878049 / 137438953472 :: real)\<rfloor> = 40
   \<and> binary64 (3352169596878049 / 137438953472 * binary64 41) = 1000000 + 1 / 8589934592
   \<and> buy_stock_fl binary64 (one_year_start (24390243902439026 / 1000000000000) 25000) 41 =
       Inl AssertionError
   \<and> current_price (market cash_account) = Inr (3884354678607053 / 1125899906842624)
   \<and> cash cash_account = 7936563551089459 / 8589934592
   \<and> \<lfloor>binary64 (cash cash_account / (3884354678607053 / 1125899906842624))\<rfloor> = 267808
   \<and> \<lfloor>cash cash_account / (3884354678607053 / 1125899906842624)\<rfloor> = 267807
   \<and> binary64 (3884354678607053 / 1125899906842624 * binary64 267808) =
       1984140887772365 / 2147483648
   \<and> cash cash_account < 1984140887772365 / 2147483648
   \<and> buy_stock_fl binary64 cash_account 267808 = Inl AssertionError"
  by (simp add: go_fl_defs float_example_defs binary64_eval)

section \<open>Rounding in the yearly sale\<close>

text \<open>
  C3. With the rounding of the code the sale can leave less cash than the withdrawal, at
  a positive price. For \<open>--spending_percentage 1.59\<close>, the starting cash 1000000.0 and the
  open price 15.14: the fixed withdrawal is 15900.000000000002; the initial purchase of
  66050 shares leaves 3.0 in cash; the float quotient \<open>(withdrawal - cash) / price\<close> is
  1050.0 although the exact quotient is above 1050, so \<open>math.ceil\<close> gives 1050 shares
  where 1051 are needed; \<open>sell_stock(1050)\<close> succeeds and leaves 15900.0 in cash, which is
  less than the withdrawal; \<open>spend_cash\<close> returns False and \<open>go\<close> returns the status
  "failed to spend cash?".
\<close>

theorem spend_after_sale_fails:
  "go_fl binary64 (cli_config binary64 (159 / 100) True) (one_year_start (1514 / 100) 16) 2000 1 =
     Inr ((False, Colored ''failed to spend cash?'' ''yellow''),
          \<lparr>cash = 15900, market = one_year_market (1514 / 100) 16, num_shares = 65000\<rparr>, [])
   \<and> SPENDING_PERCENTAGE (cli_config binary64 (159 / 100) True) =
       4582862980812217 / 288230376151711744
   \<and> binary64 (STARTING_CASH * (4582862980812217 / 288230376151711744)) =
       8741117440819201 / 549755813888
   \<and> current_price (one_year_market (1514 / 100) 16) = Inr (1065382786849833 / 70368744177664)
   \<and> (0::real) < 1065382786849833 / 70368744177664
   \<and> buy_stock_fl binary64 (one_year_start (1514 / 100) 16) 66050 =
       Inr \<lparr>cash = 3, market = one_year_market (1514 / 100) 16, num_shares = 66050\<rparr>
   \<and> num_shares_to_sell_fl binary64
        \<lparr>cash = 3, market = one_year_market (1514 / 100) 16, num_shares = 66050\<rparr>
        (8741117440819201 / 549755813888) = Inr 1050
   \<and> \<lceil>(8741117440819201 / 549755813888 - 3) / (1065382786849833 / 70368744177664 :: real)\<rceil> = 1051
   \<and> sell_stock_fl binary64
        \<lparr>cash = 3, market = one_year_market (1514 / 100) 16, num_shares = 66050\<rparr> 1050 =
       Inr (True, \<lparr>cash = 15900, market = one_year_market (1514 / 100) 16, num_shares = 65000\<rparr>)
   \<and> (15900 :: real) < 8741117440819201 / 549755813888
   \<and> spend_cash_fl binary64
        \<lparr>cash = 15900, market = one_year_market (1514 / 100) 16, num_shares = 65000\<rparr>
        (8741117440819201 / 549755813888) =
       (False, \<lparr>cash = 15900, market = one_year_market (1514 / 100) 16, num_shares = 65000\<rparr>)"
  by (simp add: go_fl_defs float_example_defs binary64_eval)

section \<open>Rounding in compounded inflation\<close>

lemma inflation_loop_fl_foldl:
  assumes "\<forall>y\<in>set yrs. infl y = Some (rate y)"
  shows "inflation_loop_fl r infl yrs c =
           Inr (foldl (\<lambda>acc y. r (acc * r (1 + rate y))) c yrs)"
  using assms by (induction yrs arbitrary: c) simp_all

text \<open>
  The claim C8 as stated fails. For the amount 1056000 and one year at 3 percent the
  factor is 1.03, the code multiplies by the rounded reciprocal and returns
  1025242.718446602, while the amount divided by the factor is 1025242.7184466019 as a
  float and lies between the two as a real. For a year with the rate -1 the factor is 0
  and the code raises \<open>ZeroDivisionError\<close>, with and without rounding.
\<close>

theorem nominal_to_real_not_quotient:
  "get_inflation_percentage_fl binary64 [2000 \<mapsto> binary64 (3 / 100)] 2000 1 =
     Inr (4638707616191611 / 4503599627370496)
   \<and> nominal_to_real_fl binary64 [2000 \<mapsto> binary64 (3 / 100)] 1056000 2000 1 =
       Inr (8806767892380583 / 8589934592)
   \<and> binary64 (1056000 / (4638707616191611 / 4503599627370496)) = 4403383946190291 / 4294967296
   \<and> (8806767892380583 / 8589934592 :: real) \<noteq> 4403383946190291 / 4294967296
   \<and> (8806767892380583 / 8589934592 :: real) \<noteq> 1056000 / (4638707616191611 / 4503599627370496)
   \<and> nominal_to_real_fl binary64 [2000 \<mapsto> binary64 (- 1)] 1056000 2000 1 = Inl ZeroDivisionError
   \<and> nominal_to_real [2000 \<mapsto> - 1] 1056000 2000 1 = Inl ZeroDivisionError"
  by (simp add: nominal_to_real_fl_def get_inflation_percentage_fl_def nominal_to_real_def
      get_inflation_percentage_def binary64_eval)

text \<open>
  C8, as the code has it. When every year of the range has an inflation rate, the factor
  returned by \<open>get_inflation_percentage\<close> is the product, taken from left to right and
  starting from 1, of the factors \<open>1 + rate\<close>, where each sum and each product is
  rounded. \<open>nominal_to_real\<close> raises \<open>ZeroDivisionError\<close> when that factor is 0; otherwise
  it returns the amount times the rounded reciprocal of the factor, the product rounded.
  For zero years the factor is 1 and the result is the amount times the float 1: the
  amount itself when it is a float.
\<close>

theorem nominal_to_real_rounded:
  assumes "\<forall>y\<in>set [start_year..start_year + num_years - 1]. infl y = Some (rate y)"
  shows "get_inflation_percentage_fl r infl start_year num_years =
           Inr (foldl (\<lambda>acc y. r (acc * r (1 + rate y))) 1 [start_year..start_year + num_years - 1])
       \<and> nominal_to_real_fl r infl amount start_year num_years =
           (if foldl (\<lambda>acc y. r (acc * r (1 + rate y))) 1 [start_year..start_year + num_years - 1] = 0
            then Inl ZeroDivisionError
            else Inr (r (amount * r (1 / foldl (\<lambda>acc y. r (acc * r (1 + rate y))) 1
                                        [start_year..start_year + num_years - 1]))))
       \<and> get_inflation_percentage_fl r infl_any year_any 0 = Inr 1
       \<and> nominal_to_real_fl r infl_any amount_any year_any 0 = Inr (r (amount_any * r 1))
       \<and> (r 1 = 1 \<and> r amount_any = amount_any \<longrightarrow> nominal_to_real_fl r infl_any amount_any year_any 0 = Inr amount_any)"
proof -
  have g: "get_inflation_percentage_fl r infl start_year num_years =
           Inr (foldl (\<lambda>acc y. r (acc * r (1 + rate y))) 1 [start_year..start_year + num_years - 1])"
    unfolding get_inflation_percentage_fl_def by (rule inflation_loop_fl_foldl [OF assms])
  have n: "nominal_to_real_fl r infl amount start_year num_years =
           (if foldl (\<lambda>acc y. r (acc * r (1 + rate y))) 1 [start_year..start_year + num_years - 1] = 0
            then Inl ZeroDivisionError
            else Inr (r (amount * r (1 / foldl (\<lambda>acc y. r (acc * r (1 + rate y))) 1
                                        [start_year..start_year + num_years - 1]))))"
    by (simp add: nominal_to_real_fl_def g)
  have z: "get_inflation_percentage_fl r infl_any year_any 0 = Inr 1"
    by (simp add: get_inflation_percentage_fl_def)
  have z2: "nominal_to_real_fl r infl_any amount_any year_any 0 = Inr (r (amount_any * r 1))"
    by (simp add: nominal_to_real_fl_def z)
  from g n z z2 show ?thesis by simp
qed

lemma float_rates:
  "\<forall>y\<in>set [2000..2000 + 3 - 1].
     float_inflation y =
       Some (if y = 2000 then 3602879701896397 / 72057594037927936
             else if y = 2001 then 5764607523034235 / 288230376151711744 else 1 / 4)"
  by (simp add: float_inflation_def binary64_eval)

theorem nominal_to_real_rounded_witness:
  "float_inflation 2000 = Some (3602879701896397 / 72057594037927936)
   \<and> float_inflation 2001 = Some (5764607523034235 / 288230376151711744)
   \<and> float_inflation 2002 = Some (1 / 4)
   \<and> get_inflation_percentage_fl binary64 float_inflation 2000 3 =
       Inr (1507298500285563 / 1125899906842624)
   \<and> nominal_to_real_fl binary64 float_inflation 133875 2000 3 =
       Inr (6871947673599999 / 68719476736)
   \<and> (6871947673599999 / 68719476736 :: real) < 100000
   \<and> nominal_to_real_fl binary64 float_inflation 133875 2000 0 = Inr 133875"
  using nominal_to_real_rounded [OF float_rates, where r = binary64 and amount = 133875
      and infl_any = float_inflation and amount_any = 133875 and year_any = 2000]
    float_rates
  by (simp add: upto_rec1 binary64_eval)

section \<open>The account invariant with rounding\<close>

lemma invested_account:
  "buy_stock_fl binary64 (one_year_start 100 110) 10000 =
     Inr \<lparr>cash = 0, market = one_year_market 100 110, num_shares = 10000\<rparr>"
  "current_price (one_year_market 100 110) = Inr 100"
  by (simp_all add: buy_stock_fl_def current_price_def float_example_defs binary64_eval)

lemma negative_run:
  "go_fl binary64 (cli_config binary64 (- 4) True) (one_year_start 100 110) 2000 1 =
     Inr ((True, Plain []),
          \<lparr>cash = 0,
            market = \<lparr>cur_year = 2001, at_start_of_year = True,
                      snp_yearly = one_year_snp 100 110, year_to_inflation = float_inflation\<rparr>,
            num_shares = 10400\<rparr>,
          [\<lparr>row_year = 2000, row_start_shares = 10000, row_start_net_worth = 1000000,
            row_withdrawal = - 40000, row_shares_sold = - 400, row_unspent_cash = 0,
            row_start_share_price = 100, row_end_share_price = 110,
            row_inflation = 3602879701896397 / 72057594037927936,
            row_end_shares = 10400, row_end_net_worth = 1144000\<rparr>])"
  by (simp add: go_fl_defs float_example_defs binary64_eval)

lemma zero_run:
  "go_fl binary64 (cli_config binary64 0 True) falling_start 2000 2 =
     Inr ((False, Colored ''failed to spend cash?'' ''yellow''),
          \<lparr>cash = - 1 / 17592186044416,
            market = \<lparr>cur_year = 2001, at_start_of_year = True,
                      snp_yearly = falling_snp, year_to_inflation = float_inflation\<rparr>,
            num_shares = 1159\<rparr>,
          [\<lparr>row_year = 2000, row_start_shares = 979, row_start_net_worth = 1000000,
            row_withdrawal = 0, row_shares_sold = 0, row_unspent_cash = 441,
            row_start_share_price = 1021, row_end_share_price = 1021,
            row_inflation = 3602879701896397 / 72057594037927936,
            row_end_shares = 979, row_end_net_worth = 1000000\<rparr>])"
  by (simp add: go_fl_defs float_example_defs binary64_eval upto_rec1)

text \<open>
  C2. A successful \<open>sell_stock\<close> can leave the cash negative: its only test is on the
  share count, and \<open>go\<close> hands it a negative count when the withdrawal is below the cash
  at hand. With \<open>--spending_percentage -4\<close>, the starting cash 1000000.0 and the open
  price 100.0, the initial purchase leaves 0.0 in cash and 10000 shares, the withdrawal
  is -40000.0, the count is -400, and \<open>sell_stock(-400)\<close> returns True with -40000.0 in
  cash and 10400 shares; the run completes. With \<open>--spending_percentage 0\<close> and a price
  that falls from 1021.0 to 2.45, the cash is 441.0 after the first year, the count of
  the second year is -180 where the exact quotient gives -179, \<open>sell_stock(-180)\<close>
  returns True and leaves a negative cash of about -5.7e-14, and the run ends with the
  status "failed to spend cash?".
\<close>

theorem sale_leaves_negative_cash:
  "account_ok (one_year_start 100 110)
   \<and> buy_stock_fl binary64 (one_year_start 100 110) 10000 =
       Inr \<lparr>cash = 0, market = one_year_market 100 110, num_shares = 10000\<rparr>
   \<and> account_ok \<lparr>cash = 0, market = one_year_market 100 110, num_shares = 10000\<rparr>
   \<and> binary64 (STARTING_CASH * SPENDING_PERCENTAGE (cli_config binary64 (- 4) True)) = - 40000
   \<and> num_shares_to_sell_fl binary64
        \<lparr>cash = 0, market = one_year_market 100 110, num_shares = 10000\<rparr> (- 40000) =
       Inr (- 400)
   \<and> sell_stock_fl binary64
        \<lparr>cash = 0, market = one_year_market 100 110, num_shares = 10000\<rparr> (- 400) =
       Inr (True, \<lparr>cash = - 40000, market = one_year_market 100 110, num_shares = 10400\<rparr>)
   \<and> \<not> account_ok \<lparr>cash = - 40000, market = one_year_market 100 110, num_shares = 10400\<rparr>
   \<and> fst (projr (go_fl binary64 (cli_config binary64 (- 4) True) (one_year_start 100 110) 2000 1)) =
       (True, Plain [])
   \<and> map row_shares_sold
        (snd (snd (projr (go_fl binary64 (cli_config binary64 (- 4) True)
                            (one_year_start 100 110) 2000 1)))) = [- 400]
   \<and> account_ok falling_start
   \<and> go_fl binary64 (cli_config binary64 0 True) falling_start 2000 2 =
       Inr ((False, Colored ''failed to spend cash?'' ''yellow''),
            \<lparr>cash = - 1 / 17592186044416,
              market = \<lparr>cur_year = 2001, at_start_of_year = True,
                        snp_yearly = falling_snp, year_to_inflation = float_inflation\<rparr>,
              num_shares = 1159\<rparr>,
            [\<lparr>row_year = 2000, row_start_shares = 979, row_start_net_worth = 1000000,
              row_withdrawal = 0, row_shares_sold = 0, row_unspent_cash = 441,
              row_start_share_price = 1021, row_end_share_price = 1021,
              row_inflation = 3602879701896397 / 72057594037927936,
              row_end_shares = 979, row_end_net_worth = 1000000\<rparr>])
   \<and> \<not> account_ok
        \<lparr>cash = - 1 / 17592186044416,
          market = \<lparr>cur_year = 2001, at_start_of_year = True,
                    snp_yearly = falling_snp, year_to_inflation = float_inflation\<rparr>,
          num_shares = 1159\<rparr>"
  using invested_account negative_run zero_run
  by (simp add: account_ok_def num_shares_to_sell_fl_def sell_stock_fl_def cli_config_def
      one_year_start_def falling_start_def InvestmentAccount_init_def STARTING_CASH_def
      binary64_eval)

end
